theory Spec2Isabelle
  imports Complex_Main "HOL-Library.Sublist" "HOL-Library.Word" "HOL-Library.Char_ord"
    "HOL-Library.List_Lexorder"
begin

section \<open>Byte strings and the Go library functions the client relies on\<close>

text \<open>
  A Go \<open>string\<close> is a sequence of bytes, modelled as \<^typ>\<open>string\<close> (a list of 8-bit
  characters). Go's \<open>int\<close> is taken to be 64 bits wide and is modelled as \<^typ>\<open>int\<close>; the
  only place where the width shows is \<open>strconv.Atoi\<close>, whose range check is written out.
\<close>

definition byte :: "char \<Rightarrow> nat" where
  "byte c = of_char c"

definition isDigit :: "char \<Rightarrow> bool" where
  \<comment> \<open>the character class \<open>[0-9]\<close>\<close>
  "isDigit c = (48 \<le> byte c \<and> byte c \<le> 57)"

definition HasPrefix :: "string \<Rightarrow> string \<Rightarrow> bool" where
  \<comment> \<open>\<open>strings.HasPrefix(s, p)\<close>\<close>
  "HasPrefix s p = prefix p s"

fun Contains :: "string \<Rightarrow> string \<Rightarrow> bool" where
  \<comment> \<open>\<open>strings.Contains(s, sub)\<close>: \<open>sub\<close> occurs in \<open>s\<close> as a contiguous block\<close>
  "Contains [] sub = (sub = [])"
| "Contains (c # cs) sub = (prefix sub (c # cs) \<or> Contains cs sub)"

fun Split :: "string \<Rightarrow> char \<Rightarrow> string list" where
  \<comment> \<open>\<open>strings.Split(s, sep)\<close> for a separator of one byte: one more part than there are
      separators, empty parts kept\<close>
  "Split [] sep = [[]]"
| "Split (c # cs) sep =
     (if c = sep then [] # Split cs sep
      else (case Split cs sep of [] \<Rightarrow> [[c]] | w # ws \<Rightarrow> (c # w) # ws))"

subsection \<open>\<open>strings.TrimSpace\<close>\<close>

text \<open>
  \<open>strings.TrimSpace\<close> removes, from both ends, every rune for which \<open>unicode.IsSpace\<close>
  holds. On bytes these are the UTF-8 encodings of the code points U+0009..U+000D, U+0020,
  U+0085, U+00A0, U+1680, U+2000..U+200A, U+2028, U+2029, U+202F, U+205F and U+3000.
\<close>

definition space_encodings :: "string list" where
  "space_encodings =
    [[CHR 0x09], [CHR 0x0A], [CHR 0x0B], [CHR 0x0C], [CHR 0x0D], [CHR 0x20],
     [CHR 0xC2, CHR 0x85], [CHR 0xC2, CHR 0xA0],
     [CHR 0xE1, CHR 0x9A, CHR 0x80],
     [CHR 0xE2, CHR 0x80, CHR 0x80], [CHR 0xE2, CHR 0x80, CHR 0x81],
     [CHR 0xE2, CHR 0x80, CHR 0x82], [CHR 0xE2, CHR 0x80, CHR 0x83],
     [CHR 0xE2, CHR 0x80, CHR 0x84], [CHR 0xE2, CHR 0x80, CHR 0x85],
     [CHR 0xE2, CHR 0x80, CHR 0x86], [CHR 0xE2, CHR 0x80, CHR 0x87],
     [CHR 0xE2, CHR 0x80, CHR 0x88], [CHR 0xE2, CHR 0x80, CHR 0x89],
     [CHR 0xE2, CHR 0x80, CHR 0x8A],
     [CHR 0xE2, CHR 0x80, CHR 0xA8], [CHR 0xE2, CHR 0x80, CHR 0xA9],
     [CHR 0xE2, CHR 0x80, CHR 0xAF],
     [CHR 0xE2, CHR 0x81, CHR 0x9F],
     [CHR 0xE3, CHR 0x80, CHR 0x80]]"

definition leading_space :: "string \<Rightarrow> nat" where
  \<comment> \<open>width in bytes of the white-space rune the string starts with, 0 when there is none\<close>
  "leading_space s =
     (case find (\<lambda>w. prefix w s) space_encodings of None \<Rightarrow> 0 | Some w \<Rightarrow> length w)"

definition trailing_space :: "string \<Rightarrow> nat" where
  \<comment> \<open>width in bytes of the white-space rune the string ends with, 0 when there is none\<close>
  "trailing_space s =
     (case find (\<lambda>w. suffix w s) space_encodings of None \<Rightarrow> 0 | Some w \<Rightarrow> length w)"

function TrimLeftSpace :: "string \<Rightarrow> string" where
  "TrimLeftSpace s =
     (if leading_space s = 0 \<or> s = [] then s else TrimLeftSpace (drop (leading_space s) s))"
  by pat_completeness auto
termination
  by (relation "measure length") auto

function TrimRightSpace :: "string \<Rightarrow> string" where
  "TrimRightSpace s =
     (if trailing_space s = 0 \<or> s = [] then s
      else TrimRightSpace (take (length s - trailing_space s) s))"
  by pat_completeness auto
termination
  by (relation "measure length") auto

declare TrimLeftSpace.simps [simp del] TrimRightSpace.simps [simp del]

definition TrimSpace :: "string \<Rightarrow> string" where
  "TrimSpace s = TrimRightSpace (TrimLeftSpace s)"

subsection \<open>\<open>strconv.Itoa\<close> and \<open>strconv.Atoi\<close>\<close>

definition digit_char :: "nat \<Rightarrow> char" where
  "digit_char d = char_of (48 + d)"

fun nat_to_dec :: "nat \<Rightarrow> string" where
  "nat_to_dec n = (if n < 10 then [digit_char n] else nat_to_dec (n div 10) @ [digit_char (n mod 10)])"

declare nat_to_dec.simps [simp del]

definition Itoa :: "int \<Rightarrow> string" where
  \<comment> \<open>also what \<open>fmt.Sprintf("%d", i)\<close> prints\<close>
  "Itoa i = (if i < 0 then CHR ''-'' # nat_to_dec (nat (- i)) else nat_to_dec (nat i))"

definition dec_value :: "string \<Rightarrow> int" where
  "dec_value ds = foldl (\<lambda>a c. a * 10 + (int (byte c) - 48)) 0 ds"

definition Atoi :: "string \<Rightarrow> int option" where
  \<comment> \<open>\<open>strconv.Atoi\<close>: an optional sign, then one or more decimal digits, the value within
      the 64-bit range; \<open>None\<close> stands for the returned error\<close>
  "Atoi s =
     (let neg = (s \<noteq> [] \<and> hd s = CHR ''-'');
          ds = (if s \<noteq> [] \<and> (hd s = CHR ''-'' \<or> hd s = CHR ''+'') then tl s else s)
      in if ds = [] \<or> \<not> list_all isDigit ds then None
         else let n = (if neg then - dec_value ds else dec_value ds)
              in if n < - (2 ^ 63) \<or> 2 ^ 63 - 1 < n then None else Some n)"

section \<open>Code tables\<close>

definition NodeStatusInitialization :: string where "NodeStatusInitialization = ''Initialization''"
definition NodeStatusUP1 :: string where "NodeStatusUP1 = ''Node is up. No connections yet''"
definition NodeStatusUP2 :: string where "NodeStatusUP2 = ''Node is up. Connections are pooled''"
definition NodeStatusDown :: string where "NodeStatusDown = ''Node is down''"
definition NodeStatusUnknown :: string where "NodeStatusUnknown = ''Unknown node status''"

definition QuorumStateUnknown :: int where "QuorumStateUnknown = - 3"
definition QuorumStateNoMasterNode :: int where "QuorumStateNoMasterNode = - 2"
definition QuorumStateAbsent :: int where "QuorumStateAbsent = - 1"
definition QuorumStateOnEdge :: int where "QuorumStateOnEdge = 0"
definition QuorumStateExist :: int where "QuorumStateExist = 1"

definition nodeStatusToString :: "int \<rightharpoonup> string" where
  "nodeStatusToString =
     map_of [(0, NodeStatusInitialization), (1, NodeStatusUP1), (2, NodeStatusUP2),
             (3, NodeStatusDown)]"

definition quorumStateToInt :: "string \<rightharpoonup> int" where
  "quorumStateToInt =
     map_of [(''UNKNOWN'', QuorumStateUnknown),
             (''NO MASTER NODE'', QuorumStateNoMasterNode),
             (''QUORUM ABSENT'', QuorumStateAbsent),
             (''QUORUM IS ON THE EDGE'', QuorumStateOnEdge),
             (''QUORUM EXIST'', QuorumStateExist)]"

definition NodeStatusCodeToString :: "int \<Rightarrow> string" where
  "NodeStatusCodeToString statusID =
     (case nodeStatusToString statusID of None \<Rightarrow> NodeStatusUnknown | Some status \<Rightarrow> status)"

definition QuorumStateToCode :: "string \<Rightarrow> int" where
  "QuorumStateToCode state =
     (case quorumStateToInt state of Some code \<Rightarrow> code | None \<Rightarrow> QuorumStateUnknown)"


section \<open>The two regular expressions\<close>

text \<open>
  Go's \<open>regexp\<close> works on runes: \<open>.\<close> consumes one UTF-8 encoded rune that is not a line
  feed, and a byte that starts no valid encoding counts as a rune of width one.
  \<open>rune_size\<close> is the width \<open>utf8.DecodeRuneInString\<close> reports.
\<close>

definition continuation :: "char \<Rightarrow> bool" where
  "continuation c = (0x80 \<le> byte c \<and> byte c \<le> 0xBF)"

definition rune_size :: "string \<Rightarrow> nat" where
  "rune_size s =
     (case s of [] \<Rightarrow> 0
      | b0 # _ \<Rightarrow>
         let x = byte b0 in
         if x < 0xC2 \<or> 0xF4 < x then 1
         else
           let sz = (if x < 0xE0 then 2 else if x < 0xF0 then 3 else 4 :: nat);
               lo = (if x = 0xE0 then 0xA0 else if x = 0xF0 then 0x90 else 0x80 :: nat);
               hi = (if x = 0xED then 0x9F else if x = 0xF4 then 0x8F else 0xBF :: nat)
           in if length s < sz then 1
              else if byte (s ! 1) < lo \<or> hi < byte (s ! 1) then 1
              else if sz \<le> 2 then 2
              else if \<not> continuation (s ! 2) then 1
              else if sz \<le> 3 then 3
              else if \<not> continuation (s ! 3) then 1
              else 4)"

text \<open>
  \<open>PCPValueRegExp = ^[^:]+: (.*)$\<close>. The label is the non-empty text before the first
  colon (the negated class also takes line feeds), a colon and a blank follow, and the
  group is the rest of the text, which \<open>.*\<close> covers only when it holds no line feed.
\<close>

definition ExtractValueFromPCPString :: "string \<Rightarrow> string" where
  "ExtractValueFromPCPString line =
     (let label = takeWhile (\<lambda>c. c \<noteq> CHR '':'') line;
          rest = dropWhile (\<lambda>c. c \<noteq> CHR '':'') line
      in if label \<noteq> [] \<and> prefix '': '' rest \<and> CHR ''\<newline>'' \<notin> set (drop 2 rest)
         then drop 2 rest else [])"

text \<open>
  \<open>PGPoolVersionRegExp = ([0-9]+.[0-9]+.[0-9]+)\<close>; the dots are not escaped, so each
  stands for any rune but a line feed. The functions below list, in the order a backtracking
  matcher tries them (greedy repetition: longest run of digits first), what is left of the
  text after each way of matching; the match Go reports is the first one at the leftmost
  position that has any.
\<close>

fun digit_ends :: "string \<Rightarrow> string list" where
  \<comment> \<open>\<open>[0-9]+\<close>: the remainders after one or more digits, longest run first\<close>
  "digit_ends [] = []"
| "digit_ends (c # cs) = (if isDigit c then digit_ends cs @ [cs] else [])"

definition any_rune :: "string \<Rightarrow> string list" where
  \<comment> \<open>\<open>.\<close>: one rune other than a line feed\<close>
  "any_rune s =
     (case s of [] \<Rightarrow> []
      | c # _ \<Rightarrow> if c = CHR ''\<newline>'' then [] else [drop (rune_size s) s])"

definition version_ends :: "string \<Rightarrow> string list" where
  "version_ends s =
     List.bind (digit_ends s) (\<lambda>r1.
     List.bind (any_rune r1) (\<lambda>r2.
     List.bind (digit_ends r2) (\<lambda>r3.
     List.bind (any_rune r3) digit_ends)))"

fun FindVersion :: "string \<Rightarrow> string option" where
  \<comment> \<open>the text of the leftmost match of \<open>PGPoolVersionRegExp\<close>, if there is one\<close>
  "FindVersion [] = None"
| "FindVersion (c # cs) =
     (case version_ends (c # cs) of
        [] \<Rightarrow> FindVersion cs
      | r # _ \<Rightarrow> Some (take (length (c # cs) - length r) (c # cs)))"

definition ExtractVersion :: "string \<Rightarrow> string" where
  "ExtractVersion line = (case FindVersion line of Some m \<Rightarrow> m | None \<Rightarrow> [])"

section \<open>Errors\<close>

datatype error =
    External string
      \<comment> \<open>an error handed back by a collaborator (process execution, file system, stream,
          version parser), with its message\<close>
  | VersionInfoError error  \<comment> \<open>\<open>error getting version information: %v\<close>\<close>
  | EmptyVersion  \<comment> \<open>\<open>pgpool returns empty version information\<close>\<close>
  | CannotExtractVersion string  \<comment> \<open>\<open>can't extract pgpool version from string: %s\<close>\<close>
  | HostnameMissing  \<comment> \<open>\<open>PCP hostname must be specified\<close>\<close>
  | UsernameMissing  \<comment> \<open>\<open>PCP username must be specified\<close>\<close>
  | PortNotPositive  \<comment> \<open>\<open>PCP port must be greater than zero\<close>\<close>
  | PassFileNotExist string  \<comment> \<open>\<open>pcppass %s does not exist\<close>\<close>
  | CannotRetrieveMode error  \<comment> \<open>\<open>cannot retrieve file mode: %v\<close>\<close>
  | PassFileIsDir  \<comment> \<open>\<open>pcppass must be a file\<close>\<close>
  | UnexpectedFileMode string "32 word"  \<comment> \<open>\<open>unexpected file mode for '%s': %s\<close>\<close>
  | PasswordMissing
      \<comment> \<open>\<open>PCP password or pcppass file (pgpool-II 3.5 and above) must be specified\<close>\<close>
  | CommandFailed error string  \<comment> \<open>\<open>fmt.Errorf("%v (%s)", err, text)\<close>\<close>

section \<open>Reading a stream line by line\<close>

text \<open>
  An \<open>io.Reader\<close> behind a \<open>bufio.Reader\<close> is the bytes it still delivers and the way it
  ends: \<open>None\<close> for \<open>io.EOF\<close>, \<open>Some e\<close> for a read error \<open>e\<close>.
\<close>

type_synonym reader = "string \<times> error option"

datatype read_error = io_EOF | io_Failure error

definition ReadString :: "reader \<Rightarrow> string \<times> read_error option \<times> reader" where
  \<comment> \<open>\<open>reader.ReadString('\n')\<close>: the text up to and including the next line feed; when
      the stream ends first, the text read so far together with the error\<close>
  "ReadString r =
     (case r of (buf, fin) \<Rightarrow>
        if CHR ''\<newline>'' \<in> set buf
        then (takeWhile (\<lambda>c. c \<noteq> CHR ''\<newline>'') buf @ [CHR ''\<newline>''], None,
              (tl (dropWhile (\<lambda>c. c \<noteq> CHR ''\<newline>'') buf), fin))
        else (buf, Some (case fin of None \<Rightarrow> io_EOF | Some e \<Rightarrow> io_Failure e), ([], fin)))"

lemma ReadString_shorter:
  "ReadString r = (line, None, r') \<Longrightarrow> length (fst r') < length (fst r)"
proof (cases r)
  case (Pair buf fin)
  assume rd: "ReadString r = (line, None, r')"
  with Pair have nl: "CHR ''\<newline>'' \<in> set buf"
    by (auto simp: ReadString_def split: if_splits)
  with Pair rd have r': "fst r' = tl (dropWhile (\<lambda>c. c \<noteq> CHR ''\<newline>'') buf)"
    by (auto simp: ReadString_def)
  have "length (dropWhile (\<lambda>c. c \<noteq> CHR ''\<newline>'') buf) \<le> length buf"
    by (rule length_dropWhile_le)
  moreover from nl have "0 < length buf"
    by (cases buf) auto
  ultimately have "length (dropWhile (\<lambda>c. c \<noteq> CHR ''\<newline>'') buf) - 1 < length buf"
    by arith
  with Pair r' show ?thesis
    by simp
qed

text \<open>
  The three decoders share one loop:
  \<^verbatim>\<open>
  for {
      line, err := reader.ReadString('\n')
      if err != nil {
          if err == io.EOF { break } else { return acc, err }
      }
      ... body ...
  }
  return acc, nil
  \<close>
  \<open>readLines body acc r\<close> is that loop around \<open>body\<close>.
\<close>

function readLines :: "('a \<Rightarrow> string \<Rightarrow> 'a) \<Rightarrow> 'a \<Rightarrow> reader \<Rightarrow> 'a \<times> error option" where
  "readLines body acc r =
     (case ReadString r of
        (line, None, r') \<Rightarrow> readLines body (body acc line) r'
      | (line, Some io_EOF, r') \<Rightarrow> (acc, None)
      | (line, Some (io_Failure e), r') \<Rightarrow> (acc, Some e))"
  by pat_completeness auto
termination
  by (relation "measure (\<lambda>(body, acc, r). length (fst r))")
    (auto dest: ReadString_shorter [OF sym])

declare readLines.simps [simp del]


section \<open>Response decoders\<close>

text \<open>
  \<open>strconv.ParseFloat\<close> and the type \<open>float64\<close> are not modelled: the weight has an
  arbitrary type \<open>'w\<close> with a zero, and the parser is a parameter \<open>pf\<close> of the decoder
  (\<open>None\<close> for its error).
\<close>

record 'w NodeInfo =
  Hostname :: string
  Port :: int
  StatusCode :: int
  Status :: string
  Weight :: 'w
  Role :: string

definition NodeInfo_zero :: "'w::zero NodeInfo" where
  \<comment> \<open>\<open>var ni NodeInfo\<close>\<close>
  "NodeInfo_zero =
     \<lparr>Hostname = [], Port = 0, StatusCode = 0, Status = [], Weight = 0, Role = []\<rparr>"

definition NodeInfo_line :: "(string \<Rightarrow> 'w option) \<Rightarrow> 'w NodeInfo \<Rightarrow> string \<Rightarrow> 'w NodeInfo" where
  \<comment> \<open>the loop body of \<open>NodeInfoUnmarshal\<close>; a \<open>None\<close> below is its \<open>continue\<close>\<close>
  "NodeInfo_line pf ni raw =
     (let line = TrimSpace raw;
          ni1 = (if Contains line ''Hostname''
                 then ni\<lparr>Hostname := ExtractValueFromPCPString line\<rparr> else ni)
      in case (if Contains line ''Port''
               then (case Atoi (ExtractValueFromPCPString line) of
                       None \<Rightarrow> None
                     | Some portInt \<Rightarrow> Some (ni1\<lparr>Port := portInt\<rparr>))
               else Some ni1) of
           None \<Rightarrow> ni1
         | Some ni2 \<Rightarrow>
        (case (if Contains line ''Status''
               then (case Atoi (ExtractValueFromPCPString line) of
                       None \<Rightarrow> None
                     | Some statusInt \<Rightarrow>
                         Some (ni2\<lparr>StatusCode := statusInt,
                                    Status := NodeStatusCodeToString statusInt\<rparr>))
               else Some ni2) of
           None \<Rightarrow> ni2
         | Some ni3 \<Rightarrow>
        (case (if Contains line ''Weight''
               then (case pf (ExtractValueFromPCPString line) of
                       None \<Rightarrow> None
                     | Some weightFloat \<Rightarrow> Some (ni3\<lparr>Weight := weightFloat\<rparr>))
               else Some ni3) of
           None \<Rightarrow> ni3
         | Some ni4 \<Rightarrow>
             (if Contains line ''Role''
              then ni4\<lparr>Role := ExtractValueFromPCPString line\<rparr> else ni4))))"

definition NodeInfoUnmarshal ::
    "(string \<Rightarrow> 'w option) \<Rightarrow> reader \<Rightarrow> ('w::zero) NodeInfo \<times> error option" where
  "NodeInfoUnmarshal pf cmdOutBuff = readLines (NodeInfo_line pf) NodeInfo_zero cmdOutBuff"

record WatchdogInfo =
  TotalNodes :: int
  RemoteNodes :: int
  QuorumState :: string
  QuorumStateCode :: int
  AliveRemoteNodes :: int
  VIP :: bool

definition WatchdogInfo_zero :: WatchdogInfo where
  "WatchdogInfo_zero =
     \<lparr>TotalNodes = 0, RemoteNodes = 0, QuorumState = [], QuorumStateCode = 0,
      AliveRemoteNodes = 0, VIP = False\<rparr>"

definition WatchdogInfo_line :: "WatchdogInfo \<Rightarrow> string \<Rightarrow> WatchdogInfo" where
  \<comment> \<open>the loop body of \<open>WatchdogInfoUnmarshal\<close>; a \<open>None\<close> below is its \<open>continue\<close>\<close>
  "WatchdogInfo_line wi raw =
     (let line = TrimSpace raw
      in case (if Contains line ''Total Nodes''
               then (case Atoi (ExtractValueFromPCPString line) of
                       None \<Rightarrow> None
                     | Some totalNodesInt \<Rightarrow> Some (wi\<lparr>TotalNodes := totalNodesInt\<rparr>))
               else Some wi) of
           None \<Rightarrow> wi
         | Some wi1 \<Rightarrow>
        (case (if Contains line ''Remote Nodes''
               then (case Atoi (ExtractValueFromPCPString line) of
                       None \<Rightarrow> None
                     | Some remoteNodesInt \<Rightarrow> Some (wi1\<lparr>RemoteNodes := remoteNodesInt\<rparr>))
               else Some wi1) of
           None \<Rightarrow> wi1
         | Some wi2 \<Rightarrow>
        (let wi3 = (if Contains line ''Quorum state''
                    then wi2\<lparr>QuorumState := ExtractValueFromPCPString line,
                             QuorumStateCode :=
                               QuorumStateToCode (ExtractValueFromPCPString line)\<rparr>
                    else wi2)
         in case (if Contains line ''Alive Remote Nodes''
                  then (case Atoi (ExtractValueFromPCPString line) of
                          None \<Rightarrow> None
                        | Some aliveRemoteNodesInt \<Rightarrow>
                            Some (wi3\<lparr>AliveRemoteNodes := aliveRemoteNodesInt\<rparr>))
                  else Some wi3) of
              None \<Rightarrow> wi3
            | Some wi4 \<Rightarrow>
                (if Contains line ''VIP up on local node''
                       \<and> ExtractValueFromPCPString line = ''YES''
                 then wi4\<lparr>VIP := True\<rparr> else wi4))))"

definition WatchdogInfoUnmarshal :: "reader \<Rightarrow> WatchdogInfo \<times> error option" where
  "WatchdogInfoUnmarshal cmdOutBuff = readLines WatchdogInfo_line WatchdogInfo_zero cmdOutBuff"

record ProcInfo =
  Database :: string
  Username :: string
  Connected :: bool

definition ProcInfo_line :: "ProcInfo list \<Rightarrow> string \<Rightarrow> ProcInfo list" where
  \<comment> \<open>the loop body of \<open>ProcInfoUnmarshal\<close>; \<open>procs\<close> is the slice \<open>pi\<close> of the source\<close>
  "ProcInfo_line procs raw =
     (let line = TrimSpace raw;
          connectionInfo = Split line CHR '' ''
      in if length connectionInfo = 13
         then procs @ [\<lparr>Database = connectionInfo ! 0, Username = connectionInfo ! 1,
                     Connected = (connectionInfo ! 12 = ''1'')\<rparr>]
         else procs)"

definition ProcInfoUnmarshal :: "reader \<Rightarrow> ProcInfo list \<times> error option" where
  "ProcInfoUnmarshal cmdOutBuff = readLines ProcInfo_line [] cmdOutBuff"

section \<open>Semantic versions\<close>

text \<open>
  The version type and its ordering belong to the library \<open>github.com/coreos/go-semver\<close>,
  which is not part of this repository. The ordering is modelled after the library:
  major, minor and patch are compared in turn, and between equal triples a version with a
  pre-release tag comes before one without. Parsing (\<open>semver.NewVersion\<close>) is a parameter
  of the client model.
\<close>

record Version =
  Major :: int
  Minor :: int
  Patch :: int
  PreRelease :: string
  Metadata :: string

fun recursiveCompare :: "int list \<Rightarrow> int list \<Rightarrow> int" where
  "recursiveCompare [] versionB = 0"
| "recursiveCompare (a # as) (b # bs) =
     (if a > b then 1 else if a < b then - 1 else recursiveCompare as bs)"

fun recursivePreReleaseCompare :: "string list \<Rightarrow> string list \<Rightarrow> int" where
  "recursivePreReleaseCompare [] [] = 0"
| "recursivePreReleaseCompare [] (b # bs) = - 1"
| "recursivePreReleaseCompare (a # as) [] = 1"
| "recursivePreReleaseCompare (a # as) (b # bs) =
     (case (Atoi a, Atoi b) of
        (Some aI, None) \<Rightarrow> - 1
      | (None, Some bI) \<Rightarrow> 1
      | (aInt, bInt) \<Rightarrow>
          if (case (aInt, bInt) of (Some aI, Some bI) \<Rightarrow> aI > bI | _ \<Rightarrow> False) then 1
          else if (case (aInt, bInt) of (Some aI, Some bI) \<Rightarrow> aI < bI | _ \<Rightarrow> False) then - 1
          else if a > b then 1
          else if a < b then - 1
          else recursivePreReleaseCompare as bs)"

definition preReleaseCompare :: "Version \<Rightarrow> Version \<Rightarrow> int" where
  "preReleaseCompare versionA versionB =
     (let a = PreRelease versionA; b = PreRelease versionB
      in if length a = 0 \<and> length b > 0 then 1
         else if length b = 0 \<and> length a > 0 then - 1
         else recursivePreReleaseCompare (Split a CHR ''.'') (Split b CHR ''.''))"

definition Compare :: "Version \<Rightarrow> Version \<Rightarrow> int" where
  "Compare v versionB =
     (let cmp = recursiveCompare [Major v, Minor v, Patch v]
                  [Major versionB, Minor versionB, Patch versionB]
      in if cmp \<noteq> 0 then cmp else preReleaseCompare v versionB)"

definition LessThan :: "Version \<Rightarrow> Version \<Rightarrow> bool" where
  "LessThan v versionB = (Compare v versionB < 0)"

definition PGPoolPCPPassFileSince :: Version where
  \<comment> \<open>\<open>semver.New("3.5.0")\<close>\<close>
  "PGPoolPCPPassFileSince =
     \<lparr>Major = 3, Minor = 5, Patch = 0, PreRelease = [], Metadata = []\<rparr>"


section \<open>The client\<close>

definition PGPool :: string where "PGPool = ''pgpool''"

record Options =
  PassFile :: string
  Hostname :: string
  Port :: int
  Username :: string
  Password :: string
  Timeout :: int

record Client =
  options :: Options
  version :: "Version option"  \<comment> \<open>\<open>None\<close> is the nil pointer: not resolved yet\<close>
  pcpPassFileSupport :: bool
  pcpPassFile :: string
  pcpPassFileUser :: bool
  pcpPassTempFile :: "string option"  \<comment> \<open>the name of the temporary file, \<open>None\<close> for nil\<close>

subsection \<open>The world outside: file system and process execution\<close>

text \<open>
  A path of the file system is absent, present but refusing \<open>os.Stat\<close> with an error, or a
  file with its \<open>os.FileMode\<close> (type bits and permission bits, 32 bits) and its contents.
  The world also keeps the log of the commands executed so far: command, environment,
  arguments. An environment is a Go slice that may be nil: \<open>None\<close> is the nil slice, with
  which \<open>os/exec\<close> lets the command inherit the environment of the calling process, and
  \<open>Some env\<close> is the slice \<open>env\<close>, the whole environment of the command (none at all for
  \<open>Some []\<close>).
\<close>

datatype fsnode = Unstatable error | File "32 word" string

record world =
  fs :: "string \<rightharpoonup> fsnode"
  runs :: "(string \<times> string list option \<times> string list) list"

text \<open>
  The collaborators: \<open>run\<close> is \<open>exec.Cmd.Run\<close> with its captured standard output, standard
  error and error; \<open>NewVersion\<close> is \<open>semver.NewVersion\<close>; \<open>TempFile\<close> is
  \<open>ioutil.TempFile("", "pgpool2")\<close>, which picks the name of the file it creates;
  \<open>WriteString_fails\<close> and \<open>Chmod_fails\<close> say whether writing to the file of that name and
  changing its mode fail.
\<close>

record collab =
  run :: "string \<Rightarrow> string list option \<Rightarrow> string list \<Rightarrow> string \<times> string \<times> error option"
  NewVersion :: "string \<Rightarrow> error + Version"
  TempFile :: "world \<Rightarrow> error + string"
  WriteString_fails :: "string \<Rightarrow> error option"
  Chmod_fails :: "string \<Rightarrow> error option"

definition ModeDir :: "32 word" where
  "ModeDir = push_bit 31 1"

definition FileMode_0600 :: "32 word" where
  \<comment> \<open>\<open>os.FileMode(0600)\<close>, octal: read and write for the owner only, no type bits\<close>
  "FileMode_0600 = 6 * 64"

definition IsDir :: "32 word \<Rightarrow> bool" where
  "IsDir m = (and m ModeDir \<noteq> 0)"

definition os_Remove :: "string \<Rightarrow> world \<Rightarrow> error option \<times> world" where
  "os_Remove name w =
     (if name \<in> dom (fs w) then (None, w\<lparr>fs := (fs w)(name := None)\<rparr>)
      else (Some (External ''no such file or directory''), w))"

subsection \<open>Operations\<close>

definition execCommand ::
    "collab \<Rightarrow> string \<Rightarrow> string list option \<Rightarrow> string list \<Rightarrow> world
      \<Rightarrow> (string \<times> string \<times> error option) \<times> world" where
  "execCommand co cmd env arg w = (run co cmd env arg, w\<lparr>runs := runs w @ [(cmd, env, arg)]\<rparr>)"

definition ClientVersion :: "collab \<Rightarrow> Client \<Rightarrow> world \<Rightarrow> (error + Version) \<times> Client \<times> world" where
  \<comment> \<open>the method \<open>Version\<close>; it reads the version text from standard error\<close>
  "ClientVersion co c w =
     (case version c of
        Some v \<Rightarrow> (Inr v, c, w)
      | None \<Rightarrow>
         (case execCommand co PGPool (Some []) [''--version''] w of
            ((stdOut, bytesBuffer, Some err), w') \<Rightarrow> (Inl (VersionInfoError err), c, w')
          | ((stdOut, bytesBuffer, None), w') \<Rightarrow>
             (let resultString = TrimSpace bytesBuffer
              in if length resultString = 0 then (Inl EmptyVersion, c, w')
                 else let ver = ExtractVersion resultString
                      in if length ver = 0 then (Inl (CannotExtractVersion resultString), c, w')
                         else (case NewVersion co ver of
                                 Inl err \<Rightarrow> (Inl err, c, w')
                               | Inr pgpoolVersion \<Rightarrow>
                                   (Inr pgpoolVersion, c\<lparr>version := Some pgpoolVersion\<rparr>, w')))))"

definition IsSupportPCPPassFile :: "collab \<Rightarrow> Client \<Rightarrow> world \<Rightarrow> (error + bool) \<times> Client \<times> world" where
  "IsSupportPCPPassFile co c w =
     (case ClientVersion co c w of
        (Inl err, c', w') \<Rightarrow> (Inl err, c', w')
      | (Inr v, c', w') \<Rightarrow>
          (if LessThan v PGPoolPCPPassFileSince then (Inr False, c', w') else (Inr True, c', w')))"

definition Validate :: "Client \<Rightarrow> world \<Rightarrow> error option \<times> Client" where
  "Validate c w =
     (if length (Options.Hostname (options c)) = 0 then (Some HostnameMissing, c)
      else if length (Options.Username (options c)) = 0 then (Some UsernameMissing, c)
      else if Options.Port (options c) \<le> 0 then (Some PortNotPositive, c)
      else if length (pcpPassFile c) \<noteq> 0 then
        (case fs w (pcpPassFile c) of
           None \<Rightarrow> (Some (PassFileNotExist (pcpPassFile c)), c)
         | Some (Unstatable err) \<Rightarrow> (Some (CannotRetrieveMode err), c)
         | Some (File mode content) \<Rightarrow>
             if IsDir mode then (Some PassFileIsDir, c)
             else if mode \<noteq> FileMode_0600 then (Some (UnexpectedFileMode (pcpPassFile c) mode), c)
             else (None, c\<lparr>pcpPassFileUser := True\<rparr>))
      else if length (Password (options c)) = 0 then (Some PasswordMissing, c)
      else (None, c))"

definition createPCPTempFile :: "collab \<Rightarrow> Client \<Rightarrow> world \<Rightarrow> error option \<times> Client \<times> world" where
  "createPCPTempFile co c w =
     (if pcpPassFileUser c then (None, c, w)
      else case TempFile co w of
        Inl err \<Rightarrow> (Some err, c, w)
      | Inr name \<Rightarrow>
         (let w1 = w\<lparr>fs := (fs w)(name \<mapsto> File FileMode_0600 [])\<rparr>
          in case WriteString_fails co name of
               Some err \<Rightarrow> (Some err, c, w1)
             | None \<Rightarrow>
                (let w2 = w1\<lparr>fs := (fs w1)(name \<mapsto> File FileMode_0600
                            (Options.Hostname (options c) @ '':'' @ Itoa (Options.Port (options c))
                               @ '':'' @ Options.Username (options c) @ '':''
                               @ Password (options c)))\<rparr>
                 in case Chmod_fails co name of
                      Some err \<Rightarrow> (Some err, c, w2)
                    | None \<Rightarrow> (None, c\<lparr>pcpPassTempFile := Some name, pcpPassFile := name\<rparr>, w2))))"

definition Clean :: "Client \<Rightarrow> world \<Rightarrow> error option \<times> world" where
  "Clean c w =
     (if pcpPassFileUser c then (None, w)
      else case pcpPassTempFile c of
        None \<Rightarrow> (None, w)
      | Some name \<Rightarrow> os_Remove name w)"

definition NewClient :: "collab \<Rightarrow> Options \<Rightarrow> world \<Rightarrow> (error + Client) \<times> world" where
  "NewClient co opts w =
     (let client = \<lparr>options = opts, version = None, pcpPassFileSupport = False,
                     pcpPassFile = [], pcpPassFileUser = False, pcpPassTempFile = None\<rparr>
      in case IsSupportPCPPassFile co client w of
        (Inl err, client1, w1) \<Rightarrow> (Inl err, w1)
      | (Inr ok, client1, w1) \<Rightarrow>
         (let client2 = (if length (PassFile opts) \<noteq> 0
                         then client1\<lparr>pcpPassFile := PassFile opts, pcpPassFileUser := True\<rparr>
                         else client1)
          in case Validate client2 w1 of
               (Some err, client3) \<Rightarrow> (Inl err, w1)
             | (None, client3) \<Rightarrow>
                 if ok then
                   (case createPCPTempFile co (client3\<lparr>pcpPassFileSupport := True\<rparr>) w1 of
                      (Some err, client4, w2) \<Rightarrow> (Inl err, w2)
                    | (None, client4, w2) \<Rightarrow> (Inr client4, w2))
                 else (Inr client3, w1)))"

definition positional_args :: "Options \<Rightarrow> string list \<Rightarrow> string list" where
  \<comment> \<open>the \<open>else\<close> branch of \<open>execPCPCommand\<close>: two passes over \<open>arg\<close> around the fixed
      five values\<close>
  "positional_args opts arg =
     (let argResult = foldl (\<lambda>acc ar. if HasPrefix ar ''-'' then acc @ [ar] else acc) [] arg;
          argResult = argResult @ [Itoa (Timeout opts), Options.Hostname opts,
                        Itoa (Options.Port opts), Options.Username opts, Password opts]
      in foldl (\<lambda>acc ar. if \<not> HasPrefix ar ''-'' then acc @ [ar] else acc) argResult arg)"

definition pcp_invocation :: "Client \<Rightarrow> string list \<Rightarrow> string list option \<times> string list" where
  \<comment> \<open>the first half of \<open>execPCPCommand\<close>: the environment \<open>env\<close> and the argument vector
      \<open>argResult\<close> it hands to \<open>execCommand\<close>\<close>
  "pcp_invocation c arg =
     (if pcpPassFileSupport c
      then (Some [''PCPPASSFILE='' @ pcpPassFile c],
            [''--username='' @ Options.Username (options c),
             ''--host='' @ Options.Hostname (options c),
             ''--port='' @ Itoa (Options.Port (options c)),
             ''--no-password''] @ arg)
      else (None, positional_args (options c) arg))"

definition execPCPCommand ::
    "collab \<Rightarrow> Client \<Rightarrow> string \<Rightarrow> string list \<Rightarrow> world \<Rightarrow> (string \<times> error option) \<times> world" where
  "execPCPCommand co c cmd arg w =
     (case pcp_invocation c arg of (env, argResult) \<Rightarrow>
        (case execCommand co cmd env argResult w of
           ((stdOut, stdErr, Some err), w') \<Rightarrow>
             ((stdOut, Some (CommandFailed err (TrimSpace stdOut))), w')
         | ((stdOut, stdErr, None), w') \<Rightarrow> ((stdOut, None), w')))"

section \<open>Notions of the specification and sample inputs\<close>

definition truncate_after_last_newline :: "string \<Rightarrow> string" where
  \<comment> \<open>the input without what follows its last line feed (empty when it has none)\<close>
  "truncate_after_last_newline s = rev (dropWhile (\<lambda>c. c \<noteq> CHR ''\<newline>'') (rev s))"

definition NNN_shape :: "string \<Rightarrow> bool" where
  \<comment> \<open>the specification's shape \<open>N.N.N\<close>: digits, dot, digits, dot, digits\<close>
  "NNN_shape v =
     (case Split v CHR ''.'' of
        [a, b, c] \<Rightarrow> a \<noteq> [] \<and> b \<noteq> [] \<and> c \<noteq> [] \<and> list_all isDigit (a @ b @ c)
      | _ \<Rightarrow> False)"

fun split_where :: "(char \<Rightarrow> bool) \<Rightarrow> string \<Rightarrow> string list" where
  "split_where sep [] = [[]]"
| "split_where sep (c # cs) =
     (if sep c then [] # split_where sep cs
      else (case split_where sep cs of [] \<Rightarrow> [[c]] | w # ws \<Rightarrow> (c # w) # ws))"

definition spec_whitespace_fields :: "string \<Rightarrow> string list" where
  \<comment> \<open>the specification's "whitespace-separated fields": the maximal blocks without a
      blank, tab, line feed, vertical tab, form feed or carriage return\<close>
  "spec_whitespace_fields s =
     filter (\<lambda>f. f \<noteq> [])
       (split_where (\<lambda>c. c \<in> set [CHR 0x09, CHR 0x0A, CHR 0x0B, CHR 0x0C, CHR 0x0D, CHR 0x20]) s)"

definition sample_options :: Options where
  "sample_options =
     \<lparr>PassFile = [], Hostname = ''h'', Port = 10, Username = ''u'', Password = ''p'',
      Timeout = 5\<rparr>"

definition sample_client :: Client where
  \<comment> \<open>a client on the positional strategy, its version resolved to 3.4.2\<close>
  "sample_client =
     \<lparr>options = sample_options,
      version = Some \<lparr>Major = 3, Minor = 4, Patch = 2, PreRelease = [], Metadata = []\<rparr>,
      pcpPassFileSupport = False, pcpPassFile = [], pcpPassFileUser = False,
      pcpPassTempFile = None\<rparr>"

definition empty_world :: world where
  "empty_world = \<lparr>fs = Map.empty, runs = []\<rparr>"

definition parse_triple :: "string \<Rightarrow> error + Version" where
  \<comment> \<open>a stand-in for \<open>semver.NewVersion\<close> on plain \<open>N.N.N\<close> texts\<close>
  "parse_triple s =
     (case map Atoi (Split s CHR ''.'') of
        [Some a, Some b, Some c] \<Rightarrow>
          Inr \<lparr>Major = a, Minor = b, Patch = c, PreRelease = [], Metadata = []\<rparr>
      | _ \<Rightarrow> Inl (External (s @ '' is not in dotted-tri format'')))"

definition sample_collab :: "string \<times> string \<times> error option \<Rightarrow> collab" where
  \<comment> \<open>collaborators whose process execution always gives the same outcome, and whose
      temporary file is \<open>/tmp/pgpool2-1\<close>\<close>
  "sample_collab outcome =
     \<lparr>run = (\<lambda>cmd env arg. outcome), NewVersion = parse_triple,
      TempFile = (\<lambda>w. Inr ''/tmp/pgpool2-1''), WriteString_fails = (\<lambda>name. None),
      Chmod_fails = (\<lambda>name. None)\<rparr>"


definition fresh_client :: "Options \<Rightarrow> Client" where
  \<comment> \<open>the client \<open>NewClient\<close> starts from: \<open>&Client{options: options}\<close>\<close>
  "fresh_client opts =
     \<lparr>options = opts, version = None, pcpPassFileSupport = False, pcpPassFile = [],
      pcpPassFileUser = False, pcpPassTempFile = None\<rparr>"

definition version_probe :: "string \<times> string list option \<times> string list" where
  \<comment> \<open>the version probe as it appears in the log of executed commands\<close>
  "version_probe = (PGPool, Some [], [''--version''])"

definition usable_passfile :: "world \<Rightarrow> string \<Rightarrow> bool" where
  \<comment> \<open>a usable credentials file: a path given, and there a file whose mode is exactly 0600\<close>
  "usable_passfile w p =
     (p \<noteq> [] \<and> (case fs w p of Some (File mode content) \<Rightarrow> mode = FileMode_0600 | _ \<Rightarrow> False))"

definition config_invalid :: "Options \<Rightarrow> world \<Rightarrow> bool" where
  \<comment> \<open>the specification's invalid configurations: empty hostname, empty username,
      non-positive port, or neither a password nor a usable credentials file\<close>
  "config_invalid opts w =
     (Hostname opts = [] \<or> Username opts = [] \<or> Port opts \<le> 0 \<or>
      (Password opts = [] \<and> \<not> usable_passfile w (PassFile opts)))"

definition config_error :: "Options \<Rightarrow> world \<Rightarrow> error" where
  \<comment> \<open>the configuration error that corresponds to an invalid configuration\<close>
  "config_error opts w =
     (if Hostname opts = [] then HostnameMissing
      else if Username opts = [] then UsernameMissing
      else if Port opts \<le> 0 then PortNotPositive
      else if PassFile opts = [] then PasswordMissing
      else (case fs w (PassFile opts) of
              None \<Rightarrow> PassFileNotExist (PassFile opts)
            | Some (Unstatable err) \<Rightarrow> CannotRetrieveMode err
            | Some (File mode content) \<Rightarrow>
                if IsDir mode then PassFileIsDir else UnexpectedFileMode (PassFile opts) mode))"

definition probe_371 :: "string \<times> string \<times> error option" where
  \<comment> \<open>a successful version probe: the version text arrives on standard error\<close>
  "probe_371 = ([], ''pgpool-II version 3.7.1 (amefuriboshi)\<newline>'', None)"

definition v371 :: Version where
  "v371 = \<lparr>Major = 3, Minor = 7, Patch = 1, PreRelease = [], Metadata = []\<rparr>"

definition sample_ParseFloat :: "string \<Rightarrow> real option" where
  \<comment> \<open>a stand-in for \<open>strconv.ParseFloat\<close> that knows one number\<close>
  "sample_ParseFloat s = (if s = ''0.5'' then Some (1 / 2) else None)"

definition sample_rows :: "string list" where
  "sample_rows =
     [''app alice c d e f g h i j k l 1'', ''Database Username'',
      ''app bob c d e f g h i j k l 0'']"

definition generated_client :: Client where
  \<comment> \<open>the client \<open>NewClient\<close> returns for \<open>sample_options\<close> when the probe reports 3.7.1\<close>
  "generated_client =
     \<lparr>options = sample_options, version = Some v371, pcpPassFileSupport = True,
      pcpPassFile = ''/tmp/pgpool2-1'', pcpPassFileUser = False,
      pcpPassTempFile = Some ''/tmp/pgpool2-1''\<rparr>"

definition generated_world :: world where
  \<comment> \<open>the world after that construction, begun in \<open>empty_world\<close>\<close>
  "generated_world =
     \<lparr>fs = [''/tmp/pgpool2-1'' \<mapsto> File FileMode_0600 ''h:10:u:p''], runs = [version_probe]\<rparr>"

section \<open>Properties\<close>

subsection \<open>Quorum labels\<close>

lemmas quorum_defs = QuorumStateToCode_def quorumStateToInt_def QuorumStateUnknown_def
  QuorumStateNoMasterNode_def QuorumStateAbsent_def QuorumStateOnEdge_def QuorumStateExist_def

text \<open>
  C8. \<open>QuorumStateToCode\<close> gives a code for every label: 1 for \<open>QUORUM EXIST\<close>, 0 for
  \<open>QUORUM IS ON THE EDGE\<close>, -1 for \<open>QUORUM ABSENT\<close>, -2 for \<open>NO MASTER NODE\<close>, -3 for
  \<open>UNKNOWN\<close>, and the unknown sentinel -3 for every other string.
\<close>

theorem QuorumStateToCode_table:
  "QuorumStateToCode ''QUORUM EXIST'' = 1 \<and>
   QuorumStateToCode ''QUORUM IS ON THE EDGE'' = 0 \<and>
   QuorumStateToCode ''QUORUM ABSENT'' = - 1 \<and>
   QuorumStateToCode ''NO MASTER NODE'' = - 2 \<and>
   QuorumStateToCode ''UNKNOWN'' = - 3 \<and>
   (state \<notin> {''QUORUM EXIST'', ''QUORUM IS ON THE EDGE'', ''QUORUM ABSENT'',
               ''NO MASTER NODE'', ''UNKNOWN''} \<longrightarrow> QuorumStateToCode state = - 3)"
  by (simp add: quorum_defs)

theorem QuorumStateToCode_table_witness:
  "''quorum exist'' \<notin> {''QUORUM EXIST'', ''QUORUM IS ON THE EDGE'', ''QUORUM ABSENT'',
               ''NO MASTER NODE'', ''UNKNOWN''} \<and> QuorumStateToCode ''quorum exist'' = - 3"
  using QuorumStateToCode_table [of "''quorum exist''"] by simp

subsection \<open>The argument vector of the positional strategy\<close>

lemma foldl_append_if:
  "foldl (\<lambda>acc ar. if P ar then acc @ [ar] else acc) init xs = init @ filter P xs"
  by (induction xs arbitrary: init) simp_all

lemma execPCPCommand_runs:
  "runs (snd (execPCPCommand co c cmd arg w)) =
     runs w @ [(cmd, fst (pcp_invocation c arg), snd (pcp_invocation c arg))]"
  by (simp add: execPCPCommand_def execCommand_def split: prod.splits option.splits)

text \<open>
  C5. On the positional strategy (no credentials-file support) the command is run with the
  nil environment and with the argument vector made of the caller's arguments that start
  with \<open>-\<close>, in their order, then timeout, hostname, port, username and password, then the
  caller's other arguments, in their order. The caller's arguments \<open>-v\<close>, \<open>42\<close> with
  timeout 5, host \<open>h\<close>, port 10, user \<open>u\<close> and password \<open>p\<close> give
  \<open>-v 5 h 10 u p 42\<close>.
\<close>

theorem positional_argument_vector:
  "(\<not> pcpPassFileSupport c \<longrightarrow>
      pcp_invocation c arg =
        (None, filter (\<lambda>ar. HasPrefix ar ''-'') arg
             @ [Itoa (Timeout (options c)), Options.Hostname (options c),
                Itoa (Options.Port (options c)), Options.Username (options c),
                Password (options c)]
             @ filter (\<lambda>ar. \<not> HasPrefix ar ''-'') arg) \<and>
      runs (snd (execPCPCommand co c cmd arg w)) =
        runs w @ [(cmd, fst (pcp_invocation c arg), snd (pcp_invocation c arg))]) \<and>
   positional_args
      \<lparr>PassFile = pf, Hostname = ''h'', Port = 10, Username = ''u'', Password = ''p'',
       Timeout = 5\<rparr> [''-v'', ''42'']
     = [''-v'', ''5'', ''h'', ''10'', ''u'', ''p'', ''42'']"
proof -
  have itoa: "Itoa 5 = ''5''" "Itoa 10 = ''10''"
    by code_simp+
  show ?thesis
    by (simp add: pcp_invocation_def positional_args_def foldl_append_if execPCPCommand_runs
        itoa HasPrefix_def)
qed

theorem positional_argument_vector_witness:
  "\<not> pcpPassFileSupport sample_client \<and>
   runs (snd (execPCPCommand (sample_collab ([], [], None)) sample_client
               ''/usr/sbin/pcp_node_info'' [''-v'', ''42''] empty_world))
     = [(''/usr/sbin/pcp_node_info'', None, [''-v'', ''5'', ''h'', ''10'', ''u'', ''p'', ''42''])]"
proof -
  have itoa: "Itoa 5 = ''5''" "Itoa 10 = ''10''"
    by code_simp+
  show ?thesis
    using positional_argument_vector [of sample_client "[''-v'', ''42'']"
        "sample_collab ([], [], None)" "''/usr/sbin/pcp_node_info''" empty_world]
    by (simp add: sample_client_def sample_options_def empty_world_def HasPrefix_def itoa)
qed

subsection \<open>Failure of an administrative command\<close>

lemma trim_samples:
  "TrimSpace '' boom\<newline>'' = ''boom''"
  "TrimSpace ''partial output '' = ''partial output''"
  by code_simp+

text \<open>
  C1, as the claim states it, fails: the text wrapped into the error is not the captured
  standard error. A command that fails with standard output \<open>partial output \<close> and standard
  error \<open> boom\<close> yields the error wrapping \<open>partial output\<close>, not \<open>boom\<close>.
\<close>

theorem execPCPCommand_stderr_counterexample:
  "fst (execPCPCommand
         (sample_collab (''partial output '', '' boom\<newline>'', Some (External ''exit status 1'')))
         sample_client ''/usr/sbin/pcp_node_count'' [] empty_world)
     = (''partial output '',
        Some (CommandFailed (External ''exit status 1'') ''partial output'')) \<and>
   CommandFailed (External ''exit status 1'') ''partial output''
     \<noteq> CommandFailed (External ''exit status 1'') (TrimSpace '' boom\<newline>'')"
  by (simp add: execPCPCommand_def execCommand_def sample_collab_def trim_samples
      split: prod.splits)

text \<open>
  C1, amended. Whenever the run collaborator reports failure for the command with the
  environment and arguments \<open>execPCPCommand\<close> builds, the error returned wraps the original
  execution error together with the captured standard output, trimmed of surrounding white
  space; the standard output itself is returned beside it.
\<close>

theorem execPCPCommand_failure_wraps_stdout:
  "run co cmd (fst (pcp_invocation c arg)) (snd (pcp_invocation c arg))
     = (stdOut, stdErr, Some err)
   \<Longrightarrow> fst (execPCPCommand co c cmd arg w)
         = (stdOut, Some (CommandFailed err (TrimSpace stdOut)))"
  by (cases "pcp_invocation c arg") (simp add: execPCPCommand_def execCommand_def)

theorem execPCPCommand_failure_wraps_stdout_witness:
  "run (sample_collab (''partial output '', '' boom\<newline>'', Some (External ''exit status 1'')))
      ''/usr/sbin/pcp_node_count'' (fst (pcp_invocation sample_client []))
      (snd (pcp_invocation sample_client []))
     = (''partial output '', '' boom\<newline>'', Some (External ''exit status 1'')) \<and>
   fst (execPCPCommand
         (sample_collab (''partial output '', '' boom\<newline>'', Some (External ''exit status 1'')))
         sample_client ''/usr/sbin/pcp_node_count'' [] empty_world)
     = (''partial output '',
        Some (CommandFailed (External ''exit status 1'') (TrimSpace ''partial output '')))"
  using execPCPCommand_failure_wraps_stdout [of
      "sample_collab (''partial output '', '' boom\<newline>'', Some (External ''exit status 1''))"
      "''/usr/sbin/pcp_node_count''" sample_client "[]" "''partial output ''" "'' boom\<newline>''"
      "External ''exit status 1''" empty_world]
  by (simp add: sample_collab_def)

subsection \<open>The line loop\<close>

lemma ReadString_line:
  "CHR ''\<newline>'' \<notin> set l \<Longrightarrow>
     ReadString (l @ CHR ''\<newline>'' # rest, fin) = (l @ [CHR ''\<newline>''], None, (rest, fin))"
  by (simp add: ReadString_def takeWhile_append dropWhile_append)

lemma readLines_line:
  "CHR ''\<newline>'' \<notin> set l \<Longrightarrow>
     readLines body acc (l @ CHR ''\<newline>'' # rest, fin)
       = readLines body (body acc (l @ [CHR ''\<newline>''])) (rest, fin)"
  by (subst readLines.simps) (simp add: ReadString_line)

lemma readLines_tail:
  "CHR ''\<newline>'' \<notin> set t \<Longrightarrow> readLines body acc (t, fin) = (acc, fin)"
  by (subst readLines.simps) (simp add: ReadString_def split: option.splits)

lemma readLines_lines:
  "\<forall>l\<in>set ls. CHR ''\<newline>'' \<notin> set l \<Longrightarrow>
     readLines body acc (concat (map (\<lambda>l. l @ [CHR ''\<newline>'']) ls), fin)
       = (foldl body acc (map (\<lambda>l. l @ [CHR ''\<newline>'']) ls), fin)"
proof (induction ls arbitrary: acc)
  case Nil
  then show ?case by (simp add: readLines_tail)
next
  case (Cons l ls)
  then show ?case by (simp add: readLines_line)
qed

lemma truncate_no_newline:
  "CHR ''\<newline>'' \<notin> set s \<Longrightarrow> truncate_after_last_newline s = []"
  by (auto simp: truncate_after_last_newline_def)

lemma truncate_line:
  "truncate_after_last_newline (l @ CHR ''\<newline>'' # rest)
     = l @ CHR ''\<newline>'' # truncate_after_last_newline rest"
  by (simp add: truncate_after_last_newline_def dropWhile_append)

lemma split_at_newline:
  "CHR ''\<newline>'' \<in> set s \<Longrightarrow>
     s = takeWhile (\<lambda>c. c \<noteq> CHR ''\<newline>'') s @ CHR ''\<newline>''
           # tl (dropWhile (\<lambda>c. c \<noteq> CHR ''\<newline>'') s)"
proof -
  assume "CHR ''\<newline>'' \<in> set s"
  then have "dropWhile (\<lambda>c. c \<noteq> CHR ''\<newline>'') s \<noteq> []"
    by (auto simp: dropWhile_eq_Nil_conv)
  then have "dropWhile (\<lambda>c. c \<noteq> CHR ''\<newline>'') s
      = CHR ''\<newline>'' # tl (dropWhile (\<lambda>c. c \<noteq> CHR ''\<newline>'') s)"
    using hd_dropWhile [of "\<lambda>c. c \<noteq> CHR ''\<newline>''" s]
    by (cases "dropWhile (\<lambda>c. c \<noteq> CHR ''\<newline>'') s") auto
  then show ?thesis
    using takeWhile_dropWhile_id [of "\<lambda>c. c \<noteq> CHR ''\<newline>''" s] by simp
qed

lemma readLines_truncate:
  "readLines body acc (s, fin) = readLines body acc (truncate_after_last_newline s, fin)"
proof (induction s arbitrary: acc rule: length_induct)
  case (1 s)
  show ?case
  proof (cases "CHR ''\<newline>'' \<in> set s")
    case False
    then show ?thesis
      by (simp add: truncate_no_newline readLines_tail)
  next
    case True
    define l where "l = takeWhile (\<lambda>c. c \<noteq> CHR ''\<newline>'') s"
    define rest where "rest = tl (dropWhile (\<lambda>c. c \<noteq> CHR ''\<newline>'') s)"
    have s: "s = l @ CHR ''\<newline>'' # rest"
      unfolding l_def rest_def using True by (rule split_at_newline)
    have l: "CHR ''\<newline>'' \<notin> set l"
      unfolding l_def by (auto dest: set_takeWhileD)
    have "length rest < length s"
      by (simp add: s)
    with 1 have IH: "\<And>acc. readLines body acc (rest, fin)
        = readLines body acc (truncate_after_last_newline rest, fin)"
      by blast
    show ?thesis
      by (simp add: s truncate_line readLines_line [OF l] IH)
  qed
qed

text \<open>
  C10. For each of \<open>NodeInfoUnmarshal\<close>, \<open>WatchdogInfoUnmarshal\<close> and \<open>ProcInfoUnmarshal\<close>,
  and however the stream ends, an input decodes to the same result as the input cut after
  its last line feed: what follows the last line feed contributes no field and no row.
\<close>

theorem unterminated_last_line_discarded:
  "NodeInfoUnmarshal pf (s, fin) = NodeInfoUnmarshal pf (truncate_after_last_newline s, fin) \<and>
   WatchdogInfoUnmarshal (s, fin) = WatchdogInfoUnmarshal (truncate_after_last_newline s, fin) \<and>
   ProcInfoUnmarshal (s, fin) = ProcInfoUnmarshal (truncate_after_last_newline s, fin)"
  unfolding NodeInfoUnmarshal_def WatchdogInfoUnmarshal_def ProcInfoUnmarshal_def
  by (intro conjI readLines_truncate)

subsection \<open>Trimming a line that ends in a line feed\<close>

lemma space_encoding_ends_nl:
  "w \<in> set space_encodings \<Longrightarrow> w = l @ [CHR ''\<newline>''] \<Longrightarrow> l = []"
  by (auto simp: space_encodings_def append_eq_Cons_conv)

lemma trailing_space_nl: "trailing_space (x @ [CHR ''\<newline>'']) = 1"
  by (simp add: trailing_space_def space_encodings_def)

lemma TrimRightSpace_nl: "TrimRightSpace (x @ [CHR ''\<newline>'']) = TrimRightSpace x"
  by (subst TrimRightSpace.simps) (simp add: trailing_space_nl)

lemma leading_space_nl:
  "l \<noteq> [] \<Longrightarrow> leading_space (l @ [CHR ''\<newline>'']) = leading_space l"
proof -
  assume "l \<noteq> []"
  then have "find (\<lambda>w. prefix w (l @ [CHR ''\<newline>''])) space_encodings
      = find (\<lambda>w. prefix w l) space_encodings"
    by (intro find_cong refl) (auto dest: space_encoding_ends_nl)
  then show ?thesis by (simp add: leading_space_def)
qed

lemma leading_space_le: "leading_space l \<le> length l"
  by (auto simp: leading_space_def find_Some_iff prefix_length_le split: option.splits)

lemma TrimLeftSpace_Nil: "TrimLeftSpace [] = []"
  by (simp add: TrimLeftSpace.simps)

lemma TrimRightSpace_Nil: "TrimRightSpace [] = []"
  by (simp add: TrimRightSpace.simps)

lemma TrimLeftSpace_nl:
  "TrimLeftSpace (l @ [CHR ''\<newline>'']) =
     (if TrimLeftSpace l = [] then [] else TrimLeftSpace l @ [CHR ''\<newline>''])"
proof (induction l rule: TrimLeftSpace.induct)
  case (1 s)
  show ?case
  proof (cases "s = []")
    case True
    have "leading_space [CHR ''\<newline>''] = 1"
      by (simp add: leading_space_def space_encodings_def)
    then have "TrimLeftSpace [CHR ''\<newline>''] = []"
      by (subst TrimLeftSpace.simps) (simp add: TrimLeftSpace_Nil)
    with True show ?thesis by (simp add: TrimLeftSpace_Nil)
  next
    case False
    note ne = this
    show ?thesis
    proof (cases "leading_space s = 0")
      case True
      with ne have "TrimLeftSpace s = s" "TrimLeftSpace (s @ [CHR ''\<newline>'']) = s @ [CHR ''\<newline>'']"
        by (simp_all add: TrimLeftSpace.simps [of s] TrimLeftSpace.simps [of "s @ _"] leading_space_nl)
      with ne show ?thesis by simp
    next
      case False
      with ne 1 have IH: "TrimLeftSpace (drop (leading_space s) s @ [CHR ''\<newline>'']) =
         (if TrimLeftSpace (drop (leading_space s) s) = [] then []
          else TrimLeftSpace (drop (leading_space s) s) @ [CHR ''\<newline>''])"
        by simp
      from ne False have a: "TrimLeftSpace s = TrimLeftSpace (drop (leading_space s) s)"
        by (subst TrimLeftSpace.simps) simp
      from ne False have b: "TrimLeftSpace (s @ [CHR ''\<newline>''])
          = TrimLeftSpace (drop (leading_space s) s @ [CHR ''\<newline>''])"
        by (subst TrimLeftSpace.simps) (simp add: leading_space_nl leading_space_le)
      show ?thesis by (simp only: a b IH)
    qed
  qed
qed

lemma TrimSpace_nl: "TrimSpace (l @ [CHR ''\<newline>'']) = TrimSpace l"
  by (simp add: TrimSpace_def TrimLeftSpace_nl TrimRightSpace_nl TrimRightSpace_Nil)

subsection \<open>Process rows\<close>

lemma ProcInfo_fold:
  "foldl ProcInfo_line acc (map (\<lambda>l. l @ [CHR ''\<newline>'']) ls) =
     acc @ map (\<lambda>l. \<lparr>Database = Split (TrimSpace l) CHR '' '' ! 0,
                     Username = Split (TrimSpace l) CHR '' '' ! 1,
                     Connected = (Split (TrimSpace l) CHR '' '' ! 12 = ''1'')\<rparr>)
             (filter (\<lambda>l. length (Split (TrimSpace l) CHR '' '') = 13) ls)"
  by (induction ls arbitrary: acc) (simp_all add: ProcInfo_line_def TrimSpace_nl Let_def)

text \<open>
  C4, as the claim states it, fails: the fields are not separated by white space at large
  but by the single blank. A line of 13 white-space separated fields with two blanks in a
  row is skipped, and a line of 12 such fields with two blanks in a row is accepted, with
  an empty field.
\<close>

theorem ProcInfoUnmarshal_whitespace_counterexample:
  "length (spec_whitespace_fields (TrimSpace ''a b c d e f g h i j k l  1\<newline>'')) = 13 \<and>
   ProcInfoUnmarshal (''a b c d e f g h i j k l  1\<newline>'', None) = ([], None) \<and>
   length (spec_whitespace_fields (TrimSpace ''db  u c d e f g h i j k 1\<newline>'')) = 12 \<and>
   ProcInfoUnmarshal (''db  u c d e f g h i j k 1\<newline>'', None)
     = ([\<lparr>Database = ''db'', Username = [], Connected = True\<rparr>], None)"
  by code_simp

text \<open>
  C4, amended. On an input made of lines that each end in a line feed, \<open>ProcInfoUnmarshal\<close>
  returns no error and one record, in the order of the input, for exactly those lines whose
  trimmed text, cut at every single blank (\<open>strings.Split(line, " ")\<close>, empty parts
  counted), has exactly 13 parts; every other line is skipped. The record of an accepted
  line has part 0 as \<open>Database\<close>, part 1 as \<open>Username\<close>, and \<open>Connected\<close> true exactly when
  part 12 is the text \<open>1\<close>.
\<close>

theorem ProcInfoUnmarshal_rows:
  "\<forall>l\<in>set ls. CHR ''\<newline>'' \<notin> set l \<Longrightarrow>
     ProcInfoUnmarshal (concat (map (\<lambda>l. l @ [CHR ''\<newline>'']) ls), None) =
       (map (\<lambda>l. \<lparr>Database = Split (TrimSpace l) CHR '' '' ! 0,
                   Username = Split (TrimSpace l) CHR '' '' ! 1,
                   Connected = (Split (TrimSpace l) CHR '' '' ! 12 = ''1'')\<rparr>)
          (filter (\<lambda>l. length (Split (TrimSpace l) CHR '' '') = 13) ls), None)"
  by (simp add: ProcInfoUnmarshal_def readLines_lines ProcInfo_fold)

theorem ProcInfoUnmarshal_rows_witness:
  "list_all (\<lambda>l. CHR ''\<newline>'' \<notin> set l) sample_rows \<and>
   ProcInfoUnmarshal (concat (map (\<lambda>l. l @ [CHR ''\<newline>'']) sample_rows), None) =
     ([\<lparr>Database = ''app'', Username = ''alice'', Connected = True\<rparr>,
       \<lparr>Database = ''app'', Username = ''bob'', Connected = False\<rparr>], None)"
proof -
  have h: "\<forall>l\<in>set sample_rows. CHR ''\<newline>'' \<notin> set l"
    by (simp add: sample_rows_def)
  have ev: "map (\<lambda>l. \<lparr>Database = Split (TrimSpace l) CHR '' '' ! 0,
                   Username = Split (TrimSpace l) CHR '' '' ! 1,
                   Connected = (Split (TrimSpace l) CHR '' '' ! 12 = ''1'')\<rparr>)
          (filter (\<lambda>l. length (Split (TrimSpace l) CHR '' '') = 13) sample_rows)
      = [\<lparr>Database = ''app'', Username = ''alice'', Connected = True\<rparr>,
         \<lparr>Database = ''app'', Username = ''bob'', Connected = False\<rparr>]"
    by code_simp
  from ProcInfoUnmarshal_rows [OF h]
  have "ProcInfoUnmarshal (concat (map (\<lambda>l. l @ [CHR ''\<newline>'']) sample_rows), None) =
     ([\<lparr>Database = ''app'', Username = ''alice'', Connected = True\<rparr>,
       \<lparr>Database = ''app'', Username = ''bob'', Connected = False\<rparr>], None)"
    unfolding ev .
  with h show ?thesis
    by (simp add: list_all_iff)
qed

subsection \<open>Node information\<close>

lemma node_lines_trim:
  "TrimSpace ''Hostname: db1\<newline>'' = ''Hostname: db1''"
  "TrimSpace ''Port: 5432\<newline>'' = ''Port: 5432''"
  "TrimSpace ''Status: 2\<newline>'' = ''Status: 2''"
  "TrimSpace ''Weight: 0.5\<newline>'' = ''Weight: 0.5''"
  "TrimSpace ''Role: primary\<newline>'' = ''Role: primary''"
  "TrimSpace ''Port: abc\<newline>'' = ''Port: abc''"
  "TrimSpace ''Weight: xyz\<newline>'' = ''Weight: xyz''"
  by code_simp+

lemma node_lines_value:
  "ExtractValueFromPCPString ''Hostname: db1'' = ''db1''"
  "ExtractValueFromPCPString ''Port: 5432'' = ''5432''"
  "ExtractValueFromPCPString ''Status: 2'' = ''2''"
  "ExtractValueFromPCPString ''Weight: 0.5'' = ''0.5''"
  "ExtractValueFromPCPString ''Role: primary'' = ''primary''"
  "ExtractValueFromPCPString ''Port: abc'' = ''abc''"
  "ExtractValueFromPCPString ''Weight: xyz'' = ''xyz''"
  by code_simp+

lemma node_values_atoi:
  "Atoi ''5432'' = Some 5432" "Atoi ''2'' = Some 2" "Atoi ''abc'' = None"
  by code_simp+

lemma status_2: "NodeStatusCodeToString 2 = ''Node is up. Connections are pooled''"
  by (simp add: NodeStatusCodeToString_def nodeStatusToString_def NodeStatusUP2_def)

lemma NodeInfo_lines:
  "NodeInfo_line pf ni ''Hostname: db1\<newline>'' = ni\<lparr>NodeInfo.Hostname := ''db1''\<rparr>"
  "NodeInfo_line pf ni ''Port: 5432\<newline>'' = ni\<lparr>NodeInfo.Port := 5432\<rparr>"
  "NodeInfo_line pf ni ''Status: 2\<newline>''
     = ni\<lparr>StatusCode := 2, Status := ''Node is up. Connections are pooled''\<rparr>"
  "pf ''0.5'' = Some w \<Longrightarrow> NodeInfo_line pf ni ''Weight: 0.5\<newline>'' = ni\<lparr>Weight := w\<rparr>"
  "NodeInfo_line pf ni ''Role: primary\<newline>'' = ni\<lparr>Role := ''primary''\<rparr>"
  "NodeInfo_line pf ni ''Port: abc\<newline>'' = ni"
  "pf ''xyz'' = None \<Longrightarrow> NodeInfo_line pf ni ''Weight: xyz\<newline>'' = ni"
  by (simp_all add: NodeInfo_line_def node_lines_trim node_lines_value node_values_atoi status_2)

lemma sample_block:
  "''Hostname: db1\<newline>Port: 5432\<newline>Status: 2\<newline>Weight: 0.5\<newline>Role: primary\<newline>''
     = concat (map (\<lambda>l. l @ [CHR ''\<newline>''])
         [''Hostname: db1'', ''Port: 5432'', ''Status: 2'', ''Weight: 0.5'', ''Role: primary''])"
  "''Hostname: db1\<newline>Port: abc\<newline>Status: 2\<newline>Weight: xyz\<newline>Role: primary\<newline>''
     = concat (map (\<lambda>l. l @ [CHR ''\<newline>''])
         [''Hostname: db1'', ''Port: abc'', ''Status: 2'', ''Weight: xyz'', ''Role: primary''])"
  by simp_all

text \<open>
  C7. With a float parser that reads \<open>0.5\<close> as the value \<open>w\<close>, \<open>NodeInfoUnmarshal\<close> on the
  block of the lines \<open>Hostname: db1\<close>, \<open>Port: 5432\<close>, \<open>Status: 2\<close>, \<open>Weight: 0.5\<close> and
  \<open>Role: primary\<close>, each ended by a line feed, returns without error the record with
  hostname \<open>db1\<close>, port 5432, status code 2, status \<open>Node is up. Connections are pooled\<close>,
  weight \<open>w\<close> and role \<open>primary\<close>. A line whose port or weight value is not numeric leaves
  that field as it was, so at the zero default in a block such as the one above with
  \<open>Port: abc\<close> and \<open>Weight: xyz\<close>, and the lines after it are still decoded.
\<close>

theorem NodeInfoUnmarshal_sample:
  "(pf ''0.5'' = Some w \<longrightarrow>
      NodeInfoUnmarshal pf
        (''Hostname: db1\<newline>Port: 5432\<newline>Status: 2\<newline>Weight: 0.5\<newline>Role: primary\<newline>'', None)
      = (\<lparr>NodeInfo.Hostname = ''db1'', NodeInfo.Port = 5432, StatusCode = 2,
          Status = ''Node is up. Connections are pooled'', Weight = w, Role = ''primary''\<rparr>,
         None)) \<and>
   (pf ''xyz'' = None \<longrightarrow>
      NodeInfoUnmarshal pf
        (''Hostname: db1\<newline>Port: abc\<newline>Status: 2\<newline>Weight: xyz\<newline>Role: primary\<newline>'', None)
      = (\<lparr>NodeInfo.Hostname = ''db1'', NodeInfo.Port = 0, StatusCode = 2,
          Status = ''Node is up. Connections are pooled'', Weight = 0, Role = ''primary''\<rparr>,
         None)) \<and>
   (Contains (TrimSpace raw) ''Port'' \<and> Atoi (ExtractValueFromPCPString (TrimSpace raw)) = None
      \<longrightarrow> NodeInfo.Port (NodeInfo_line pf ni raw) = NodeInfo.Port ni) \<and>
   (Contains (TrimSpace raw) ''Weight'' \<and> pf (ExtractValueFromPCPString (TrimSpace raw)) = None
      \<longrightarrow> Weight (NodeInfo_line pf ni raw) = Weight ni)"
proof (intro conjI impI)
  assume "pf ''0.5'' = Some w"
  then show "NodeInfoUnmarshal pf
        (''Hostname: db1\<newline>Port: 5432\<newline>Status: 2\<newline>Weight: 0.5\<newline>Role: primary\<newline>'', None)
      = (\<lparr>NodeInfo.Hostname = ''db1'', NodeInfo.Port = 5432, StatusCode = 2,
          Status = ''Node is up. Connections are pooled'', Weight = w, Role = ''primary''\<rparr>,
         None)"
    unfolding NodeInfoUnmarshal_def sample_block
    by (subst readLines_lines) (simp_all add: NodeInfo_lines NodeInfo_zero_def)
next
  assume "pf ''xyz'' = None"
  then show "NodeInfoUnmarshal pf
        (''Hostname: db1\<newline>Port: abc\<newline>Status: 2\<newline>Weight: xyz\<newline>Role: primary\<newline>'', None)
      = (\<lparr>NodeInfo.Hostname = ''db1'', NodeInfo.Port = 0, StatusCode = 2,
          Status = ''Node is up. Connections are pooled'', Weight = 0, Role = ''primary''\<rparr>,
         None)"
    unfolding NodeInfoUnmarshal_def sample_block
    by (subst readLines_lines) (simp_all add: NodeInfo_lines NodeInfo_zero_def)
next
  assume "Contains (TrimSpace raw) ''Port'' \<and> Atoi (ExtractValueFromPCPString (TrimSpace raw)) = None"
  then show "NodeInfo.Port (NodeInfo_line pf ni raw) = NodeInfo.Port ni"
    by (simp add: NodeInfo_line_def Let_def)
next
  assume "Contains (TrimSpace raw) ''Weight'' \<and> pf (ExtractValueFromPCPString (TrimSpace raw)) = None"
  then show "Weight (NodeInfo_line pf ni raw) = Weight ni"
    by (simp add: NodeInfo_line_def Let_def split: option.splits)
qed

theorem NodeInfoUnmarshal_sample_witness:
  "sample_ParseFloat ''0.5'' = Some (1 / 2) \<and>
   NodeInfoUnmarshal sample_ParseFloat
     (''Hostname: db1\<newline>Port: 5432\<newline>Status: 2\<newline>Weight: 0.5\<newline>Role: primary\<newline>'', None)
     = (\<lparr>NodeInfo.Hostname = ''db1'', NodeInfo.Port = 5432, StatusCode = 2,
         Status = ''Node is up. Connections are pooled'', Weight = 1 / 2, Role = ''primary''\<rparr>,
        None) \<and>
   sample_ParseFloat ''xyz'' = None \<and>
   NodeInfoUnmarshal sample_ParseFloat
     (''Hostname: db1\<newline>Port: abc\<newline>Status: 2\<newline>Weight: xyz\<newline>Role: primary\<newline>'', None)
     = (\<lparr>NodeInfo.Hostname = ''db1'', NodeInfo.Port = 0, StatusCode = 2,
         Status = ''Node is up. Connections are pooled'', Weight = 0, Role = ''primary''\<rparr>,
        None) \<and>
   Contains (TrimSpace ''Port: abc\<newline>'') ''Port'' \<and>
   Atoi (ExtractValueFromPCPString (TrimSpace ''Port: abc\<newline>'')) = None \<and>
   NodeInfo.Port (NodeInfo_line sample_ParseFloat NodeInfo_zero ''Port: abc\<newline>'') = 0 \<and>
   Contains (TrimSpace ''Weight: xyz\<newline>'') ''Weight'' \<and>
   sample_ParseFloat (ExtractValueFromPCPString (TrimSpace ''Weight: xyz\<newline>'')) = None \<and>
   Weight (NodeInfo_line sample_ParseFloat NodeInfo_zero ''Weight: xyz\<newline>'') = 0"
  using NodeInfoUnmarshal_sample [of sample_ParseFloat "1 / 2" "''Port: abc\<newline>''"
      NodeInfo_zero]
    NodeInfoUnmarshal_sample [of sample_ParseFloat "1 / 2" "''Weight: xyz\<newline>''"
      NodeInfo_zero]
  by (simp add: sample_ParseFloat_def node_lines_trim node_lines_value node_values_atoi
      NodeInfo_zero_def)

subsection \<open>Version extraction\<close>

lemma digit_ends_nondigit: "r = [] \<or> \<not> isDigit (hd r) \<Longrightarrow> digit_ends r = []"
  by (cases r) auto

lemma digit_ends_run:
  "ds \<noteq> [] \<Longrightarrow> list_all isDigit ds \<Longrightarrow> r = [] \<or> \<not> isDigit (hd r)
     \<Longrightarrow> \<exists>xs. digit_ends (ds @ r) = r # xs"
proof (induction ds)
  case Nil
  then show ?case by simp
next
  case (Cons d ds)
  show ?case
  proof (cases "ds = []")
    case True
    with Cons.prems show ?thesis
      by (simp add: digit_ends_nondigit)
  next
    case False
    with Cons obtain xs where "digit_ends (ds @ r) = r # xs"
      by auto
    with Cons.prems show ?thesis
      by simp
  qed
qed

lemma isDigit_dot: "\<not> isDigit CHR ''.''"
  by (simp add: isDigit_def byte_def)

lemma any_rune_dot: "any_rune (CHR ''.'' # r) = [r]"
  by (simp add: any_rune_def rune_size_def byte_def)

lemma version_ends_NNN:
  assumes "d1 \<noteq> []" "d2 \<noteq> []" "d3 \<noteq> []" "list_all isDigit d1" "list_all isDigit d2"
    "list_all isDigit d3" "post = [] \<or> \<not> isDigit (hd post)"
  shows "\<exists>xs. version_ends (d1 @ CHR ''.'' # d2 @ CHR ''.'' # d3 @ post) = post # xs"
proof -
  obtain xs1 where e1: "digit_ends (d1 @ CHR ''.'' # d2 @ CHR ''.'' # d3 @ post)
      = (CHR ''.'' # d2 @ CHR ''.'' # d3 @ post) # xs1"
    using digit_ends_run [of d1 "CHR ''.'' # d2 @ CHR ''.'' # d3 @ post"] assms
    by (auto simp: isDigit_dot)
  obtain xs2 where e2: "digit_ends (d2 @ CHR ''.'' # d3 @ post) = (CHR ''.'' # d3 @ post) # xs2"
    using digit_ends_run [of d2 "CHR ''.'' # d3 @ post"] assms
    by (auto simp: isDigit_dot)
  obtain xs3 where e3: "digit_ends (d3 @ post) = post # xs3"
    using digit_ends_run [of d3 post] assms by auto
  show ?thesis
    by (simp add: version_ends_def e1 e2 e3 any_rune_dot)
qed

lemma version_ends_nondigit: "\<not> isDigit c \<Longrightarrow> version_ends (c # cs) = []"
  by (simp add: version_ends_def)

lemma FindVersion_skip:
  "\<forall>c\<in>set pre. \<not> isDigit c \<Longrightarrow> FindVersion (pre @ s) = FindVersion s"
  by (induction pre) (simp_all add: version_ends_nondigit)

lemma FindVersion_no_digit: "\<forall>c\<in>set s. \<not> isDigit c \<Longrightarrow> FindVersion s = None"
  by (induction s) (simp_all add: version_ends_nondigit)

lemma FindVersion_NNN:
  assumes "d1 \<noteq> []" "d2 \<noteq> []" "d3 \<noteq> []" "list_all isDigit d1" "list_all isDigit d2"
    "list_all isDigit d3" "post = [] \<or> \<not> isDigit (hd post)"
  shows "FindVersion (d1 @ CHR ''.'' # d2 @ CHR ''.'' # d3 @ post)
     = Some (d1 @ CHR ''.'' # d2 @ CHR ''.'' # d3)"
proof -
  obtain xs where e: "version_ends (d1 @ CHR ''.'' # d2 @ CHR ''.'' # d3 @ post) = post # xs"
    using version_ends_NNN [OF assms] by blast
  obtain c cs where s: "d1 @ CHR ''.'' # d2 @ CHR ''.'' # d3 @ post = c # cs"
    by (cases d1) auto
  have "FindVersion (c # cs) = Some (take (length (c # cs) - length post) (c # cs))"
    using e unfolding s by simp
  then show ?thesis
    unfolding s [symmetric] by simp
qed

text \<open>
  C3, as the claim states it, fails. The leftmost match is returned, so of two tokens of
  the shape N.N.N the second is never the result; and since the dots of the expression
  stand for any character, \<open>10 3.7.1\<close> yields \<open>10 3.7\<close> and \<open>12345\<close>, which holds no
  token of that shape, yields \<open>12345\<close>.
\<close>

theorem ExtractVersion_counterexample:
  "NNN_shape ''4.5.6'' \<and> Contains ''1.2.3 4.5.6'' ''4.5.6'' \<and>
   ExtractVersion ''1.2.3 4.5.6'' = ''1.2.3'' \<and>
   NNN_shape ''3.7.1'' \<and> Contains ''10 3.7.1'' ''3.7.1'' \<and>
   ExtractVersion ''10 3.7.1'' = ''10 3.7'' \<and> \<not> NNN_shape ''10 3.7'' \<and>
   CHR ''.'' \<notin> set ''12345'' \<and> ExtractVersion ''12345'' = ''12345''"
  by code_simp

text \<open>
  C3, amended. When the first decimal digit of the input starts a token of the shape
  N.N.N that no further digit follows (the input is some text without digits, then three
  non-empty runs of digits joined by dots, then nothing or text that starts with a
  non-digit), \<open>ExtractVersion\<close> returns exactly that token, whatever surrounds it; for an
  input without any decimal digit it returns the empty string.
\<close>

theorem ExtractVersion_first_token:
  "((\<forall>c\<in>set pre. \<not> isDigit c) \<and> d1 \<noteq> [] \<and> d2 \<noteq> [] \<and> d3 \<noteq> [] \<and>
    list_all isDigit d1 \<and> list_all isDigit d2 \<and> list_all isDigit d3 \<and>
    (post = [] \<or> \<not> isDigit (hd post))
    \<longrightarrow> ExtractVersion (pre @ d1 @ ''.'' @ d2 @ ''.'' @ d3 @ post) = d1 @ ''.'' @ d2 @ ''.'' @ d3) \<and>
   ((\<forall>c\<in>set s. \<not> isDigit c) \<longrightarrow> ExtractVersion s = [])"
  by (simp add: ExtractVersion_def FindVersion_skip FindVersion_NNN FindVersion_no_digit)

theorem ExtractVersion_first_token_witness:
  "list_all (\<lambda>c. \<not> isDigit c) ''pgpool-II version '' \<and>
   list_all isDigit ''3'' \<and> list_all isDigit ''7'' \<and> list_all isDigit ''1'' \<and>
   \<not> isDigit (hd '' (some codename)'') \<and>
   ExtractVersion ''pgpool-II version 3.7.1 (some codename)'' = ''3.7.1'' \<and>
   list_all (\<lambda>c. \<not> isDigit c) ''pgpool'' \<and> ExtractVersion ''pgpool'' = []"
proof -
  have h: "(\<forall>c\<in>set ''pgpool-II version ''. \<not> isDigit c) \<and> list_all isDigit ''3'' \<and>
      list_all isDigit ''7'' \<and> list_all isDigit ''1'' \<and> \<not> isDigit (hd '' (some codename)'') \<and>
      (\<forall>c\<in>set ''pgpool''. \<not> isDigit c)"
    by (simp add: isDigit_def byte_def)
  show ?thesis
    using h ExtractVersion_first_token [of "''pgpool-II version ''" "''3''" "''7''" "''1''"
        "'' (some codename)''" "''pgpool''"]
    by simp
qed

subsection \<open>Client construction\<close>

lemma ClientVersion_fresh:
  "version c = None \<Longrightarrow> ClientVersion co c w = (r, c', w') \<Longrightarrow>
     w' = w\<lparr>runs := runs w @ [version_probe]\<rparr> \<and>
     options c' = options c \<and> pcpPassFileSupport c' = pcpPassFileSupport c \<and>
     pcpPassFile c' = pcpPassFile c \<and> pcpPassFileUser c' = pcpPassFileUser c \<and>
     pcpPassTempFile c' = pcpPassTempFile c"
  by (auto simp: ClientVersion_def execCommand_def version_probe_def Let_def
      split: prod.splits option.splits if_splits sum.splits)

lemma IsSupportPCPPassFile_fresh:
  "version c = None \<Longrightarrow> IsSupportPCPPassFile co c w = (r, c', w') \<Longrightarrow>
     w' = w\<lparr>runs := runs w @ [version_probe]\<rparr> \<and>
     options c' = options c \<and> pcpPassFileSupport c' = pcpPassFileSupport c \<and>
     pcpPassFile c' = pcpPassFile c \<and> pcpPassFileUser c' = pcpPassFileUser c \<and>
     pcpPassTempFile c' = pcpPassTempFile c"
  by (auto simp: IsSupportPCPPassFile_def split: prod.splits sum.splits if_splits
      dest: ClientVersion_fresh)

lemma ClientVersion_probe_ok:
  "version c = None \<Longrightarrow> run co PGPool (Some []) [''--version''] = (out, verText, None) \<Longrightarrow>
   TrimSpace verText \<noteq> [] \<Longrightarrow> ExtractVersion (TrimSpace verText) \<noteq> [] \<Longrightarrow>
   NewVersion co (ExtractVersion (TrimSpace verText)) = Inr v \<Longrightarrow>
     ClientVersion co c w = (Inr v, c\<lparr>version := Some v\<rparr>, w\<lparr>runs := runs w @ [version_probe]\<rparr>)"
  by (simp add: ClientVersion_def execCommand_def version_probe_def Let_def)

lemma Validate_invalid:
  "config_invalid (options c) w \<Longrightarrow>
   pcpPassFile c = PassFile (options c) \<Longrightarrow>
     Validate c w = (Some (config_error (options c) w), c)"
  by (auto simp: Validate_def config_invalid_def config_error_def usable_passfile_def
      split: option.splits fsnode.splits)

lemma Validate_frame:
  "Validate c w = (r, c') \<Longrightarrow>
     c' = c \<or> (r = None \<and> pcpPassFile c \<noteq> [] \<and> c' = c\<lparr>pcpPassFileUser := True\<rparr>)"
  by (auto simp: Validate_def split: if_splits option.splits fsnode.splits)

lemma Validate_ok_no_file:
  "Validate c w = (None, c') \<Longrightarrow> pcpPassFile c = [] \<Longrightarrow> c' = c"
  by (auto dest: Validate_frame)

lemma createPCPTempFile_ok:
  "createPCPTempFile co c w = (None, c', w') \<Longrightarrow>
     (pcpPassFileUser c \<and> c' = c \<and> w' = w) \<or>
     (\<not> pcpPassFileUser c \<and>
      (\<exists>name content. c' = c\<lparr>pcpPassTempFile := Some name, pcpPassFile := name\<rparr> \<and>
          w' = w\<lparr>fs := (fs w)(name \<mapsto> File FileMode_0600 content)\<rparr>))"
  by (auto simp: createPCPTempFile_def Let_def split: if_splits sum.splits option.splits)

lemma createPCPTempFile_runs:
  "createPCPTempFile co c w = (r, c', w') \<Longrightarrow> runs w' = runs w"
  by (auto simp: createPCPTempFile_def Let_def split: if_splits sum.splits option.splits)

lemma NewClient_invalid:
  assumes inv: "config_invalid opts w"
  shows "snd (NewClient co opts w) = w\<lparr>runs := runs w @ [version_probe]\<rparr> \<and>
     (\<exists>e. fst (NewClient co opts w) = Inl e) \<and>
     (\<forall>v c' w'. IsSupportPCPPassFile co (fresh_client opts) w = (Inr v, c', w')
        \<longrightarrow> fst (NewClient co opts w) = Inl (config_error opts w))"
proof -
  obtain r c1 w1 where sup: "IsSupportPCPPassFile co (fresh_client opts) w = (r, c1, w1)"
    by (cases "IsSupportPCPPassFile co (fresh_client opts) w") auto
  from IsSupportPCPPassFile_fresh [OF _ sup]
  have w1: "w1 = w\<lparr>runs := runs w @ [version_probe]\<rparr>"
    and c1: "options c1 = opts" "pcpPassFile c1 = []"
    by (simp_all add: fresh_client_def)
  define c2 where "c2 = (if length (PassFile opts) \<noteq> 0
       then c1\<lparr>pcpPassFile := PassFile opts, pcpPassFileUser := True\<rparr> else c1)"
  have o2: "options c2 = opts" and p2: "pcpPassFile c2 = PassFile opts"
    by (simp_all add: c2_def c1)
  have inv1: "config_invalid (options c2) w1"
    using inv by (simp add: o2 w1 config_invalid_def usable_passfile_def)
  have val: "Validate c2 w1 = (Some (config_error opts w), c2)"
    using Validate_invalid [OF inv1] p2 o2 by (simp add: w1 config_error_def)
  show ?thesis
  proof (cases r)
    case (Inl e)
    with sup show ?thesis
      by (simp add: NewClient_def fresh_client_def w1)
  next
    case (Inr ok)
    have "NewClient co opts w = (Inl (config_error opts w), w1)"
      unfolding NewClient_def Let_def fresh_client_def [symmetric] sup [unfolded Inr]
        prod.case sum.case c2_def [symmetric] val option.case ..
    with sup Inr show ?thesis
      by (simp add: w1)
  qed
qed

lemma ClientVersion_fresh_result:
  "version c = None \<Longrightarrow>
     fst (ClientVersion co c w) =
       (case run co PGPool (Some []) [''--version''] of
          (out, verText, Some err) \<Rightarrow> Inl (VersionInfoError err)
        | (out, verText, None) \<Rightarrow>
            if TrimSpace verText = [] then Inl EmptyVersion
            else if ExtractVersion (TrimSpace verText) = []
              then Inl (CannotExtractVersion (TrimSpace verText))
            else NewVersion co (ExtractVersion (TrimSpace verText)))"
  by (simp add: ClientVersion_def execCommand_def Let_def
      split: prod.splits option.splits sum.splits)

lemma IsSupportPCPPassFile_result:
  "fst (IsSupportPCPPassFile co c w) =
     (case fst (ClientVersion co c w) of
        Inl err \<Rightarrow> Inl err
      | Inr v \<Rightarrow> Inr (\<not> LessThan v PGPoolPCPPassFileSince))"
  by (simp add: IsSupportPCPPassFile_def split: prod.splits sum.splits)

lemma NewClient_invalid_error:
  assumes inv: "config_invalid opts w"
  shows "fst (NewClient co opts w) =
     (case fst (ClientVersion co (fresh_client opts) w) of
        Inl err \<Rightarrow> Inl err
      | Inr v \<Rightarrow> Inl (config_error opts w))"
proof -
  obtain r c1 w1 where sup: "IsSupportPCPPassFile co (fresh_client opts) w = (r, c1, w1)"
    by (cases "IsSupportPCPPassFile co (fresh_client opts) w") auto
  have r: "r = (case fst (ClientVersion co (fresh_client opts) w) of
        Inl err \<Rightarrow> Inl err
      | Inr v \<Rightarrow> Inr (\<not> LessThan v PGPoolPCPPassFileSince))"
    using IsSupportPCPPassFile_result [of co "fresh_client opts" w] sup by simp
  show ?thesis
  proof (cases r)
    case (Inl e)
    with sup have "fst (NewClient co opts w) = Inl e"
      by (simp add: NewClient_def fresh_client_def)
    with Inl r show ?thesis
      by (auto split: sum.splits)
  next
    case (Inr ok)
    with sup NewClient_invalid [OF inv, of co]
    have "fst (NewClient co opts w) = Inl (config_error opts w)"
      by blast
    with Inr r show ?thesis
      by (auto split: sum.splits)
  qed
qed

lemma probe_text:
  "TrimSpace ''pgpool-II version 3.7.1 (amefuriboshi)\<newline>'' = ''pgpool-II version 3.7.1 (amefuriboshi)''"
  "ExtractVersion ''pgpool-II version 3.7.1 (amefuriboshi)'' = ''3.7.1''"
  "parse_triple ''3.7.1'' = Inr \<lparr>Major = 3, Minor = 7, Patch = 1, PreRelease = [], Metadata = []\<rparr>"
  by code_simp+

text \<open>
  C2, as the claim states it, fails: construction runs the version probe before it
  validates the options. With an empty hostname the probe \<open>pgpool --version\<close> is run all
  the same, and when the probe itself fails the error returned is the probe's, not a
  configuration error.
\<close>

theorem NewClient_probe_counterexample:
  "config_invalid (sample_options\<lparr>Hostname := []\<rparr>) empty_world \<and>
   runs (snd (NewClient (sample_collab ([], ''pgpool-II version 3.7.1 (amefuriboshi)\<newline>'', None))
               (sample_options\<lparr>Hostname := []\<rparr>) empty_world))
     = [(''pgpool'', Some [], [''--version''])] \<and>
   fst (NewClient (sample_collab ([], [], Some (External ''executable file not found'')))
               (sample_options\<lparr>Hostname := []\<rparr>) empty_world)
     = Inl (VersionInfoError (External ''executable file not found''))"
  by code_simp

text \<open>
  C2, amended. For every invalid configuration (empty hostname, empty username,
  non-positive port, or neither a password nor a usable credentials file) \<open>NewClient\<close>
  fails and leaves the file system as it was; it runs exactly one external command first,
  the version probe \<open>pgpool --version\<close>. When that probe yields a version that parses,
  the error returned is the corresponding configuration error. When the probe fails, the
  error returned is the probe's: the wrapped execution error when the command fails, the
  empty-version error when it prints nothing but white space, the cannot-extract error when
  its text holds no version token, and the parser's error when the token does not parse.
\<close>

theorem NewClient_invalid_configuration:
  "config_invalid opts w \<Longrightarrow>
     runs (snd (NewClient co opts w)) = runs w @ [(PGPool, Some [], [''--version''])] \<and>
     fs (snd (NewClient co opts w)) = fs w \<and>
     (\<exists>e. fst (NewClient co opts w) = Inl e) \<and>
     (run co PGPool (Some []) [''--version''] = (out, verText, None) \<and> TrimSpace verText \<noteq> [] \<and>
      ExtractVersion (TrimSpace verText) \<noteq> [] \<and>
      NewVersion co (ExtractVersion (TrimSpace verText)) = Inr v
      \<longrightarrow> fst (NewClient co opts w) = Inl (config_error opts w)) \<and>
     fst (NewClient co opts w) =
       (case run co PGPool (Some []) [''--version''] of
          (out, verText, Some err) \<Rightarrow> Inl (VersionInfoError err)
        | (out, verText, None) \<Rightarrow>
            if TrimSpace verText = [] then Inl EmptyVersion
            else if ExtractVersion (TrimSpace verText) = []
              then Inl (CannotExtractVersion (TrimSpace verText))
            else (case NewVersion co (ExtractVersion (TrimSpace verText)) of
                    Inl err \<Rightarrow> Inl err
                  | Inr pgpoolVersion \<Rightarrow> Inl (config_error opts w)))"
proof -
  assume inv: "config_invalid opts w"
  note main = NewClient_invalid [OF inv, of co]
  have err: "fst (NewClient co opts w) =
       (case run co PGPool (Some []) [''--version''] of
          (out, verText, Some err) \<Rightarrow> Inl (VersionInfoError err)
        | (out, verText, None) \<Rightarrow>
            if TrimSpace verText = [] then Inl EmptyVersion
            else if ExtractVersion (TrimSpace verText) = []
              then Inl (CannotExtractVersion (TrimSpace verText))
            else (case NewVersion co (ExtractVersion (TrimSpace verText)) of
                    Inl err \<Rightarrow> Inl err
                  | Inr pgpoolVersion \<Rightarrow> Inl (config_error opts w)))"
    unfolding NewClient_invalid_error [OF inv, of co]
    by (subst ClientVersion_fresh_result)
      (simp_all add: fresh_client_def split: prod.splits option.splits sum.splits)
  have ok: "fst (NewClient co opts w) = Inl (config_error opts w)"
    if "run co PGPool (Some []) [''--version''] = (out, verText, None)" "TrimSpace verText \<noteq> []"
      "ExtractVersion (TrimSpace verText) \<noteq> []"
      "NewVersion co (ExtractVersion (TrimSpace verText)) = Inr v"
    using that by (simp add: err)
  from main ok err show ?thesis
    by (simp add: version_probe_def)
qed

theorem NewClient_invalid_configuration_witness:
  "config_invalid (sample_options\<lparr>Hostname := []\<rparr>) empty_world \<and>
   runs (snd (NewClient (sample_collab ([], ''pgpool-II version 3.7.1 (amefuriboshi)\<newline>'', None))
               (sample_options\<lparr>Hostname := []\<rparr>) empty_world))
     = [(''pgpool'', Some [], [''--version''])] \<and>
   fst (NewClient (sample_collab ([], ''pgpool-II version 3.7.1 (amefuriboshi)\<newline>'', None))
               (sample_options\<lparr>Hostname := []\<rparr>) empty_world)
     = Inl HostnameMissing \<and>
   fst (NewClient (sample_collab ([], [], Some (External ''executable file not found'')))
               (sample_options\<lparr>Hostname := []\<rparr>) empty_world)
     = Inl (VersionInfoError (External ''executable file not found'')) \<and>
   fst (NewClient (sample_collab ([], ''  \<newline>'', None))
               (sample_options\<lparr>Hostname := []\<rparr>) empty_world)
     = Inl EmptyVersion"
proof -
  have inv: "config_invalid (sample_options\<lparr>Hostname := []\<rparr>) empty_world"
    by (simp add: config_invalid_def)
  have blank: "TrimSpace ''  \<newline>'' = []"
    by code_simp
  show ?thesis
    using inv NewClient_invalid_configuration [OF inv,
        of "sample_collab ([], ''pgpool-II version 3.7.1 (amefuriboshi)\<newline>'', None)"
          "[]" "''pgpool-II version 3.7.1 (amefuriboshi)\<newline>''"
          "\<lparr>Major = 3, Minor = 7, Patch = 1, PreRelease = [], Metadata = []\<rparr>"]
      NewClient_invalid_configuration [OF inv,
        of "sample_collab ([], [], Some (External ''executable file not found''))"
          "[]" "[]" v371]
      NewClient_invalid_configuration [OF inv,
        of "sample_collab ([], ''  \<newline>'', None)" "[]" "[]" v371]
    by (simp add: sample_collab_def probe_text blank empty_world_def config_error_def PGPool_def)
qed

subsection \<open>The capability gate\<close>

lemma LessThan_since:
  "LessThan v PGPoolPCPPassFileSince \<longleftrightarrow>
     Major v < 3 \<or> Major v = 3 \<and>
       (Minor v < 5 \<or> Minor v = 5 \<and> (Patch v < 0 \<or> Patch v = 0 \<and> PreRelease v \<noteq> []))"
proof -
  have atoi: "Atoi [] = None"
    by (simp add: Atoi_def)
  show ?thesis
    by (auto simp: LessThan_def Compare_def preReleaseCompare_def PGPoolPCPPassFileSince_def
        atoi Let_def)
qed

lemma probe_371_version:
  "ClientVersion (sample_collab probe_371) (fresh_client opts) w
     = (Inr v371, (fresh_client opts)\<lparr>version := Some v371\<rparr>,
        w\<lparr>runs := runs w @ [version_probe]\<rparr>)"
  by (rule ClientVersion_probe_ok [where out = "[]"
        and verText = "''pgpool-II version 3.7.1 (amefuriboshi)\<newline>''"])
    (simp_all add: fresh_client_def sample_collab_def probe_371_def probe_text v371_def)

text \<open>
  C6. \<open>IsSupportPCPPassFile\<close> does nothing beyond resolving the version, and on the
  resolved version it is a comparison with 3.5.0 alone: it answers false when the version
  is below 3.5.0 (a smaller major, minor or patch number in turn, or 3.5.0 with a
  pre-release tag) and true otherwise, so true at 3.5.0 itself, and reports no error. On a
  client whose version is already resolved it runs no command and changes nothing.
\<close>

theorem IsSupportPCPPassFile_threshold:
  "(ClientVersion co c w = (Inr v, c', w') \<longrightarrow>
      IsSupportPCPPassFile co c w =
        (Inr (\<not> (Major v < 3 \<or> Major v = 3 \<and> (Minor v < 5 \<or> Minor v = 5 \<and>
                  (Patch v < 0 \<or> Patch v = 0 \<and> PreRelease v \<noteq> [])))), c', w')) \<and>
   (version c = Some v \<longrightarrow>
      IsSupportPCPPassFile co c w =
        (Inr (\<not> (Major v < 3 \<or> Major v = 3 \<and> (Minor v < 5 \<or> Minor v = 5 \<and>
                  (Patch v < 0 \<or> Patch v = 0 \<and> PreRelease v \<noteq> [])))), c, w))"
proof (intro conjI impI)
  assume "ClientVersion co c w = (Inr v, c', w')"
  then show "IsSupportPCPPassFile co c w =
        (Inr (\<not> (Major v < 3 \<or> Major v = 3 \<and> (Minor v < 5 \<or> Minor v = 5 \<and>
                  (Patch v < 0 \<or> Patch v = 0 \<and> PreRelease v \<noteq> [])))), c', w')"
    by (simp add: IsSupportPCPPassFile_def LessThan_since)
next
  assume "version c = Some v"
  then have "ClientVersion co c w = (Inr v, c, w)"
    by (simp add: ClientVersion_def)
  then show "IsSupportPCPPassFile co c w =
        (Inr (\<not> (Major v < 3 \<or> Major v = 3 \<and> (Minor v < 5 \<or> Minor v = 5 \<and>
                  (Patch v < 0 \<or> Patch v = 0 \<and> PreRelease v \<noteq> [])))), c, w)"
    by (simp add: IsSupportPCPPassFile_def LessThan_since)
qed

theorem IsSupportPCPPassFile_threshold_witness:
  "ClientVersion (sample_collab probe_371) (fresh_client sample_options) empty_world
     = (Inr v371, (fresh_client sample_options)\<lparr>version := Some v371\<rparr>,
        empty_world\<lparr>runs := runs empty_world @ [version_probe]\<rparr>) \<and>
   IsSupportPCPPassFile (sample_collab probe_371) (fresh_client sample_options) empty_world
     = (Inr True, (fresh_client sample_options)\<lparr>version := Some v371\<rparr>,
        empty_world\<lparr>runs := runs empty_world @ [version_probe]\<rparr>) \<and>
   version (sample_client\<lparr>version := Some PGPoolPCPPassFileSince\<rparr>)
     = Some PGPoolPCPPassFileSince \<and>
   IsSupportPCPPassFile (sample_collab ([], [], None))
       (sample_client\<lparr>version := Some PGPoolPCPPassFileSince\<rparr>) empty_world =
     (Inr True, sample_client\<lparr>version := Some PGPoolPCPPassFileSince\<rparr>, empty_world) \<and>
   version sample_client
     = Some \<lparr>Major = 3, Minor = 4, Patch = 2, PreRelease = [], Metadata = []\<rparr> \<and>
   IsSupportPCPPassFile (sample_collab ([], [], None)) sample_client empty_world
     = (Inr False, sample_client, empty_world)"
  using IsSupportPCPPassFile_threshold
      [of "sample_collab probe_371" "fresh_client sample_options" empty_world v371
        "(fresh_client sample_options)\<lparr>version := Some v371\<rparr>"
        "empty_world\<lparr>runs := runs empty_world @ [version_probe]\<rparr>"]
    IsSupportPCPPassFile_threshold
      [of "sample_collab ([], [], None)"
        "sample_client\<lparr>version := Some PGPoolPCPPassFileSince\<rparr>" empty_world
        PGPoolPCPPassFileSince]
    IsSupportPCPPassFile_threshold [of "sample_collab ([], [], None)" sample_client empty_world
      "\<lparr>Major = 3, Minor = 4, Patch = 2, PreRelease = [], Metadata = []\<rparr>"]
  by (simp add: probe_371_version sample_client_def PGPoolPCPPassFileSince_def v371_def)

subsection \<open>Cleanup\<close>

lemma Clean_user: "pcpPassFileUser c \<Longrightarrow> Clean c w' = (None, w')"
  by (simp add: Clean_def)

lemma Clean_none: "pcpPassTempFile c = None \<Longrightarrow> Clean c w' = (None, w')"
  by (simp add: Clean_def)

lemma Clean_own:
  "\<not> pcpPassFileUser c \<Longrightarrow> pcpPassTempFile c = Some name \<Longrightarrow>
     fs (snd (Clean c w')) = (fs w')(name := None) \<and>
     runs (snd (Clean c w')) = runs w' \<and>
     (name \<in> dom (fs w') \<longrightarrow> fst (Clean c w') = None)"
  by (auto simp: Clean_def os_Remove_def)

lemma NewClient_ok:
  assumes ok: "NewClient co opts w = (Inr c, w1)"
  shows "(PassFile opts \<noteq> [] \<longrightarrow> pcpPassFileUser c \<and> pcpPassTempFile c = None \<and> fs w1 = fs w) \<and>
     (PassFile opts = [] \<longrightarrow> \<not> pcpPassFileUser c \<and>
        (pcpPassTempFile c = None \<longrightarrow> fs w1 = fs w) \<and>
        (\<forall>name. pcpPassTempFile c = Some name \<longrightarrow>
           pcpPassFile c = name \<and> name \<in> dom (fs w1) \<and> (\<forall>p. p \<noteq> name \<longrightarrow> fs w1 p = fs w p)))"
proof -
  obtain r c1 w0 where sup: "IsSupportPCPPassFile co (fresh_client opts) w = (r, c1, w0)"
    by (cases "IsSupportPCPPassFile co (fresh_client opts) w") auto
  from IsSupportPCPPassFile_fresh [OF _ sup]
  have w0: "w0 = w\<lparr>runs := runs w @ [version_probe]\<rparr>"
    and c1: "pcpPassFile c1 = []" "pcpPassFileUser c1 = False" "pcpPassTempFile c1 = None"
    by (simp_all add: fresh_client_def)
  define c2 where "c2 = (if length (PassFile opts) \<noteq> 0
       then c1\<lparr>pcpPassFile := PassFile opts, pcpPassFileUser := True\<rparr> else c1)"
  have c2: "pcpPassFile c2 = PassFile opts" "pcpPassFileUser c2 = (PassFile opts \<noteq> [])"
    "pcpPassTempFile c2 = None"
    by (simp_all add: c2_def c1)
  obtain okb where r: "r = Inr okb"
    using ok unfolding NewClient_def Let_def fresh_client_def [symmetric] sup prod.case
    by (cases r) auto
  obtain e c3 where val: "Validate c2 w0 = (e, c3)"
    by (cases "Validate c2 w0") auto
  have unf: "NewClient co opts w =
      (case (e, c3) of
         (Some err, client3) \<Rightarrow> (Inl err, w0)
       | (None, client3) \<Rightarrow>
           if okb then
             (case createPCPTempFile co (client3\<lparr>pcpPassFileSupport := True\<rparr>) w0 of
                (Some err, client4, w2) \<Rightarrow> (Inl err, w2)
              | (None, client4, w2) \<Rightarrow> (Inr client4, w2))
           else (Inr client3, w0))"
    unfolding NewClient_def Let_def fresh_client_def [symmetric] sup [unfolded r]
      prod.case sum.case c2_def [symmetric] val ..
  from ok unf have e: "e = None"
    by (cases e) auto
  from Validate_frame [OF val] c2 have c3: "pcpPassFileUser c3 = (PassFile opts \<noteq> [])"
    "pcpPassTempFile c3 = None"
    by auto
  show ?thesis
  proof (cases okb)
    case False
    with ok unf e have "c = c3" "w1 = w0"
      by simp_all
    with c3 w0 show ?thesis by simp
  next
    case True
    with ok unf e
    have cr: "createPCPTempFile co (c3\<lparr>pcpPassFileSupport := True\<rparr>) w0 = (None, c, w1)"
      by (auto split: prod.splits option.splits)
    from createPCPTempFile_ok [OF cr] c3 w0 show ?thesis
      by auto
  qed
qed

lemma probe_371_support:
  "IsSupportPCPPassFile (sample_collab probe_371) (fresh_client opts) w
     = (Inr True, (fresh_client opts)\<lparr>version := Some v371\<rparr>,
        w\<lparr>runs := runs w @ [version_probe]\<rparr>)"
  by (simp add: IsSupportPCPPassFile_def probe_371_version LessThan_since v371_def)

lemma itoa_10: "Itoa 10 = ''10''"
  by code_simp

text \<open>
  Straight from the constructor the ownership flag tells who supplied the file. For a
  client that \<open>NewClient\<close> built from a caller-supplied credentials file,
  \<open>pcpPassFileUser\<close> is set, construction created no file and \<open>Clean\<close> is a no-op in
  every state of the file system. For a client built without one, \<open>Clean\<close> is a no-op
  when no temporary file was generated; when one was generated, it is the only path
  construction touched, and \<open>Clean\<close> removes that path and nothing else.
\<close>

lemma Clean_after_NewClient:
  "NewClient co opts w = (Inr c, w1) \<Longrightarrow>
     (PassFile opts \<noteq> [] \<longrightarrow> pcpPassFileUser c \<and> fs w1 = fs w \<and> Clean c w' = (None, w')) \<and>
     (PassFile opts = [] \<longrightarrow> \<not> pcpPassFileUser c \<and>
        (pcpPassTempFile c = None \<longrightarrow> fs w1 = fs w \<and> Clean c w' = (None, w')) \<and>
        (\<forall>name. pcpPassTempFile c = Some name \<longrightarrow>
           pcpPassFile c = name \<and> name \<in> dom (fs w1) \<and> (\<forall>p. p \<noteq> name \<longrightarrow> fs w1 p = fs w p) \<and>
           Clean c w1 = (None, w1\<lparr>fs := (fs w1)(name := None)\<rparr>) \<and>
           fs (snd (Clean c w')) = (fs w')(name := None)))"
proof -
  assume ok: "NewClient co opts w = (Inr c, w1)"
  note facts = NewClient_ok [OF ok]
  show ?thesis
  proof (cases "PassFile opts = []")
    case False
    with facts show ?thesis
      by (simp add: Clean_user)
  next
    case True
    with facts have nu: "\<not> pcpPassFileUser c"
      by simp
    have "Clean c w1 = (None, w1\<lparr>fs := (fs w1)(name := None)\<rparr>)"
      if "pcpPassTempFile c = Some name" for name
      using facts True that nu by (auto simp: Clean_def os_Remove_def)
    with facts True nu show ?thesis
      by (auto simp: Clean_none Clean_own)
  qed
qed

lemma FileMode_0600_not_dir: "\<not> IsDir FileMode_0600"
  by (simp add: IsDir_def ModeDir_def FileMode_0600_def)

lemma NewClient_generated:
  "NewClient (sample_collab probe_371) sample_options empty_world
     = (Inr generated_client, generated_world)"
  unfolding NewClient_def Let_def fresh_client_def [symmetric] probe_371_support
  by (simp add: Validate_def createPCPTempFile_def fresh_client_def sample_options_def
      sample_collab_def empty_world_def itoa_10 generated_client_def generated_world_def)

text \<open>
  C9 says that \<open>Clean\<close> removes the temporary credentials file exactly when the client
  itself created it. The code breaks this once the exported \<open>Validate\<close> has been called
  on a client that generated its file. \<open>NewClient\<close>, given no credentials file and a
  pooler at 3.7.1, creates \<open>/tmp/pgpool2-1\<close> and returns a client that does not hold the
  flag \<open>pcpPassFileUser\<close>; \<open>Clean\<close> on that client removes the file. \<open>Validate\<close> on that
  client finds \<open>pcpPassFile\<close>, by now the name of the client's own file, to be a file of
  mode 0600, reports no error and sets \<open>pcpPassFileUser\<close>; \<open>Clean\<close> then returns no
  error and leaves the file the client created where it is.
\<close>

theorem Clean_after_Validate_keeps_own_file:
  "NewClient (sample_collab probe_371) sample_options empty_world
     = (Inr generated_client, generated_world) \<and>
   PassFile sample_options = [] \<and>
   fs empty_world ''/tmp/pgpool2-1'' = None \<and>
   fs generated_world ''/tmp/pgpool2-1'' = Some (File FileMode_0600 ''h:10:u:p'') \<and>
   pcpPassTempFile generated_client = Some ''/tmp/pgpool2-1'' \<and>
   pcpPassFileUser generated_client = False \<and>
   Clean generated_client generated_world = (None, generated_world\<lparr>fs := Map.empty\<rparr>) \<and>
   Validate generated_client generated_world
     = (None, generated_client\<lparr>pcpPassFileUser := True\<rparr>) \<and>
   Clean (generated_client\<lparr>pcpPassFileUser := True\<rparr>) generated_world
     = (None, generated_world)"
  by (intro conjI, rule NewClient_generated)
    (simp_all add: sample_options_def empty_world_def generated_client_def
      generated_world_def Clean_def os_Remove_def Validate_def FileMode_0600_not_dir)

end
